theory Spec2Isabelle
  imports Complex_Main "HOL-Library.AList"
begin

section \<open>JavaScript values\<close>

text \<open>
  The values the application persists are JSON-serialisable. A JavaScript object used as
  a dictionary is an association list in insertion order (the order of \<open>Object.keys\<close>
  and of \<open>JSON.stringify\<close>); assigning to a key keeps its place, as \<open>AList.update\<close>
  does (keys that are array indices, which JavaScript enumerates first, keep their
  place of insertion here). Numbers are rationals: truthiness only asks whether a number
  is zero. The association list holds the own properties of the object; what the object
  inherits is modelled below (\<open>proto\<close>).
\<close>

datatype json =
    JNull
  | JBool bool
  | JNum rat
  | JStr string
  | JArr "json list"
  | JObj "(string \<times> json) list"

type_synonym doc = "(string \<times> json) list"

text \<open>Truthiness of a value, as \<open>!v\<close>, \<open>v || w\<close> and \<open>if (v)\<close> test it.\<close>

fun truthy :: "json \<Rightarrow> bool" where
  "truthy JNull = False"
| "truthy (JBool b) = b"
| "truthy (JNum n) = (n \<noteq> 0)"
| "truthy (JStr s) = (s \<noteq> [])"
| "truthy (JArr xs) = True"
| "truthy (JObj d) = True"

text \<open>
  A string that may be \<open>null\<close> (a missing local-storage entry, an unset module
  variable): truthy when present and non-empty.
\<close>

fun truthy_str :: "string option \<Rightarrow> bool" where
  "truthy_str None = False"
| "truthy_str (Some s) = (s \<noteq> [])"

text \<open>
  A value read from an object is a JSON value or a member of the standard library (a
  method of \<open>Object.prototype\<close> or \<open>Array.prototype\<close>, or
  \<open>Object.prototype\<close> itself), named by its path. The latter are objects and
  functions, so they are truthy and equal to no JSON value.
\<close>

datatype jsval = Json json | Native string

text \<open>\<open>obj[key] || null\<close>: a missing key and every falsy entry read as \<open>null\<close>.\<close>

definition or_null :: "jsval option \<Rightarrow> jsval" where
  "or_null r =
     (case r of
        None \<Rightarrow> Json JNull
      | Some (Json v) \<Rightarrow> if truthy v then Json v else Json JNull
      | Some (Native n) \<Rightarrow> Native n)"

text \<open>
  Thrown values. \<open>Error m\<close> is an \<open>Error\<close> object with message \<open>m\<close>
  (a \<open>TypeError\<close> included); \<open>Reject j\<close> is any other rejected value (the
  response object of a failed API call, the response of a refused consent), with \<open>j\<close>
  its \<open>JSON.stringify\<close> text.
\<close>

datatype error = Error string | Reject string

text \<open>\<open>'...' + e.message\<close>: a value without a message prints as \<open>undefined\<close>.\<close>

fun message_text :: "error \<Rightarrow> string" where
  "message_text (Error m) = m"
| "message_text (Reject j) = ''undefined''"

text \<open>\<open>err.message || JSON.stringify(err)\<close>; an \<open>Error\<close> object stringifies to \<open>{}\<close>.\<close>

fun message_or_json :: "error \<Rightarrow> string" where
  "message_or_json (Error m) = (if m \<noteq> [] then m else ''{}'')"
| "message_or_json (Reject j) = j"

subsection \<open>Numbers in local storage\<close>

text \<open>
  Local storage holds strings. \<open>saveToken\<close> stores the expiry timestamp, an integer
  number of milliseconds, which \<open>String\<close> prints in decimal; the readers apply
  \<open>Number\<close> to it. \<open>Number_str\<close> is \<open>Number\<close> on the strings of that form
  (an optional sign and decimal digits; the empty string is 0); \<open>None\<close> is \<open>NaN\<close>,
  which every other string is in this model, and every comparison with \<open>NaN\<close> is false.
\<close>

definition digit_val :: "char \<Rightarrow> nat option" where
  "digit_val c = map_of
     [(CHR ''0'', 0), (CHR ''1'', 1), (CHR ''2'', 2), (CHR ''3'', 3), (CHR ''4'', 4),
      (CHR ''5'', 5), (CHR ''6'', 6), (CHR ''7'', 7), (CHR ''8'', 8), (CHR ''9'', 9)] c"

fun parse_digits :: "string \<Rightarrow> nat \<Rightarrow> nat option" where
  "parse_digits [] acc = Some acc"
| "parse_digits (c # cs) acc =
     (case digit_val c of None \<Rightarrow> None | Some d \<Rightarrow> parse_digits cs (10 * acc + d))"

definition Number_str :: "string \<Rightarrow> int option" where
  "Number_str s =
     (case s of
        [] \<Rightarrow> Some 0
      | c # cs \<Rightarrow>
          if c = CHR ''-'' then
            (if cs = [] then None else map_option (\<lambda>n. - int n) (parse_digits cs 0))
          else if c = CHR ''+'' then
            (if cs = [] then None else map_option int (parse_digits cs 0))
          else map_option int (parse_digits s 0))"

definition digit_char :: "nat \<Rightarrow> char" where
  "digit_char d = ''0123456789'' ! d"

function digits_of :: "nat \<Rightarrow> string" where
  "digits_of n = (if n < 10 then [digit_char n] else digits_of (n div 10) @ [digit_char (n mod 10)])"
  by pat_completeness auto
termination
  by (relation "measure (\<lambda>n. n)") auto

declare digits_of.simps [simp del]

definition String_of_int :: "int \<Rightarrow> string" where
  "String_of_int i = (if i < 0 then CHR ''-'' # digits_of (nat (- i)) else digits_of (nat i))"

text \<open>\<open>Number(s) > now\<close>.\<close>

definition num_gt :: "int option \<Rightarrow> int \<Rightarrow> bool" where
  "num_gt x t = (case x of None \<Rightarrow> False | Some e \<Rightarrow> e > t)"

subsection \<open>Property access on an object\<close>

text \<open>
  The cache of the adapter is an ordinary object, made by \<open>{}\<close> or by parsing the
  file, so it starts with \<open>Object.prototype\<close> as its prototype; the adapter reads
  it with \<open>this.cache[key]\<close> and writes it with \<open>this.cache[key] = value\<close>,
  which follow the prototype chain. \<open>Object.prototype\<close> and
  \<open>Array.prototype\<close> are taken with the string-named members of ECMAScript 2023
  (Annex B included); a page that changes them is outside the model. All those members
  are writable data properties, except the accessor \<open>__proto__\<close> of
  \<open>Object.prototype\<close>: its getter returns the prototype of the object it is read
  from, and its setter replaces that prototype when it is given an object, an array or
  \<open>null\<close>, and does nothing when it is given any other value.
\<close>

datatype proto = ObjectPrototype | NoPrototype | ValuePrototype json

definition object_prototype_names :: "string list" where
  "object_prototype_names =
     [''constructor'', ''__defineGetter__'', ''__defineSetter__'', ''hasOwnProperty'',
      ''__lookupGetter__'', ''__lookupSetter__'', ''isPrototypeOf'', ''propertyIsEnumerable'',
      ''toString'', ''valueOf'', ''__proto__'', ''toLocaleString'']"

definition array_prototype_names :: "string list" where
  "array_prototype_names =
     [''constructor'', ''at'', ''concat'', ''copyWithin'', ''fill'', ''find'',
      ''findIndex'', ''findLast'', ''findLastIndex'', ''lastIndexOf'', ''pop'', ''push'',
      ''reverse'', ''shift'', ''unshift'', ''slice'', ''sort'', ''splice'', ''includes'',
      ''indexOf'', ''join'', ''keys'', ''entries'', ''values'', ''forEach'', ''filter'',
      ''flat'', ''flatMap'', ''map'', ''every'', ''some'', ''reduce'', ''reduceRight'',
      ''toLocaleString'', ''toString'', ''toReversed'', ''toSorted'', ''toSpliced'', ''with'']"

text \<open>
  The own properties of a JSON value: the entries of an object; \<open>length\<close> and the
  indices, in decimal, of an array; none of a primitive.
\<close>

fun own_member :: "json \<Rightarrow> string \<Rightarrow> json option" where
  "own_member (JObj d) k = map_of d k"
| "own_member (JArr xs) k =
     (if k = ''length'' then Some (JNum (of_nat (length xs)))
      else map_option (\<lambda>i. xs ! i) (find (\<lambda>i. digits_of i = k) [0..<length xs]))"
| "own_member v k = None"

fun is_array :: "json \<Rightarrow> bool" where
  "is_array (JArr xs) = True"
| "is_array v = False"

text \<open>What an object with the prototype \<open>p\<close> and no own property \<open>k\<close> reads under \<open>k\<close>.\<close>

definition inherited :: "proto \<Rightarrow> string \<Rightarrow> jsval option" where
  "inherited p k =
     (case p of
        NoPrototype \<Rightarrow> None
      | ObjectPrototype \<Rightarrow>
          if k = ''__proto__'' then Some (Native ''Object.prototype'')
          else if k \<in> set object_prototype_names then Some (Native (''Object.prototype.'' @ k))
          else None
      | ValuePrototype pv \<Rightarrow>
          (case own_member pv k of
             Some v \<Rightarrow> Some (Json v)
           | None \<Rightarrow>
               if is_array pv \<and> k \<in> set array_prototype_names
               then Some (Native (''Array.prototype.'' @ k))
               else if k = ''__proto__'' then Some (Json pv)
               else if k \<in> set object_prototype_names
               then Some (Native (''Object.prototype.'' @ k))
               else None))"

text \<open>\<open>obj[k]\<close> on an object with the own properties \<open>own\<close> and the prototype \<open>p\<close>.\<close>

definition js_get :: "doc \<Rightarrow> proto \<Rightarrow> string \<Rightarrow> jsval option" where
  "js_get own p k = (case map_of own k of Some v \<Rightarrow> Some (Json v) | None \<Rightarrow> inherited p k)"

text \<open>The setter of \<open>Object.prototype.__proto__\<close> is on the chain and no data property shadows it.\<close>

fun reaches_setter :: "proto \<Rightarrow> bool" where
  "reaches_setter ObjectPrototype = True"
| "reaches_setter NoPrototype = False"
| "reaches_setter (ValuePrototype pv) = (own_member pv ''__proto__'' = None)"

text \<open>
  \<open>obj[k] = v\<close> creates or updates an own property of the object: always, unless
  \<open>k\<close> is \<open>__proto__\<close>, the object has no own property of that name and the
  assignment reaches the setter.
\<close>

definition stores_entry :: "string \<Rightarrow> doc \<Rightarrow> proto \<Rightarrow> bool" where
  "stores_entry k own p = (k \<noteq> ''__proto__'' \<or> map_of own k \<noteq> None \<or> \<not> reaches_setter p)"

definition js_set :: "string \<Rightarrow> json \<Rightarrow> doc \<Rightarrow> proto \<Rightarrow> doc \<times> proto" where
  "js_set k v own p =
     (if stores_entry k own p then (AList.update k v own, p)
      else (case v of
              JObj d \<Rightarrow> (own, ValuePrototype v)
            | JArr xs \<Rightarrow> (own, ValuePrototype v)
            | JNull \<Rightarrow> (own, NoPrototype)
            | _ \<Rightarrow> (own, p)))"

section \<open>The Google Drive adapter (src/unnamed/part\_002)\<close>

subsection \<open>The world the adapter runs in\<close>

text \<open>
  A file of the user's Drive. The adapter is the only writer of its file and uploads
  \<open>JSON.stringify\<close> of an object, so a content is an object; \<open>None\<close> is a body that
  does not parse, for which the client library's \<open>response.result\<close> is \<open>false\<close>.
\<close>

record drive_file =
  file_id :: string
  file_name :: string
  trashed :: bool
  file_content :: "doc option"

text \<open>The outcome of a \<open>fetch\<close>: it rejects, or resolves with a failure or success status.\<close>

datatype http = NetFail error | HttpFail nat | HttpOk

text \<open>
  What the outside does when asked, fixed during one operation: whether the two client
  scripts load, what the consent flow answers, whether the list and get calls of the
  client library reject, and how the two uploads end. \<open>new_file_id\<close> is the id Drive
  gives to a file it creates.
\<close>

record env =
  script_load :: "error option"
  auth_response :: "error + string"
  list_fault :: "error option"
  get_fault :: "error option"
  create_outcome :: http
  new_file_id :: string
  patch_outcome :: http

text \<open>The requests the adapter sends to Drive, in order, with the bodies of the uploads.\<close>

datatype api_call =
    FilesList
  | FilesGet string
  | FilesCreate doc
  | FilesPatch string doc

datatype level = LOG | WARN | ERROR

datatype promise = Resolved | Rejected error

text \<open>
  What \<open>window.gapi\<close> offers: no \<open>client\<close>, the \<open>client\<close> alone, or the
  \<open>client\<close> with the Drive API (\<open>window.gapi.client.drive\<close>), which
  \<open>gapi.client.init\<close> loads from the discovery document.
\<close>

datatype client_lib = NoClient | Client | ClientWithDrive

text \<open>
  The state: the clock, local storage, the module variables of lines 11--18, the two
  fields of the adapter instance, the pending timers of the event loop, the Drive, and
  what an observer sees (requests, console, alerts). \<open>libs_present\<close> is
  \<open>window.google && window.gapi\<close>; \<open>gapi_token\<close> is the token given to the client
  library with \<open>setToken\<close>. The field \<open>cache\<close> holds the own properties of
  \<open>this.cache\<close> and \<open>cache_proto\<close> its prototype. The only callback the
  module ever schedules is the flush of \<open>setItem\<close>, so a timer is its handle and
  its due time.
\<close>

record world =
  now :: int
  localStorage :: "string \<rightharpoonup> string"
  libs_present :: bool
  gapi_client :: client_lib
  scriptsPromise :: "promise option"
  tokenClient :: bool
  gapiInited :: bool
  gisInited :: bool
  gapi_token :: "string option"
  accessToken :: "string option"
  tokenExpiry :: "int option"
  configFileId :: "string option"
  cache :: doc
  cache_proto :: proto
  saveTimeout :: "nat option"
  timers :: "(nat \<times> int) list"
  timer_seq :: nat
  drive :: "drive_file list"
  requests :: "api_call list"
  console :: "(level \<times> string) list"
  alerts :: "string list"

text \<open>The result of an asynchronous function: it throws (rejects) or returns, in a new state.\<close>

type_synonym 'a outcome = "(error + 'a) \<times> world"

definition console_log :: "level \<Rightarrow> string \<Rightarrow> world \<Rightarrow> world" where
  "console_log l s w = w\<lparr>console := console w @ [(l, s)]\<rparr>"

definition alert :: "string \<Rightarrow> world \<Rightarrow> world" where
  "alert s w = w\<lparr>alerts := alerts w @ [s]\<rparr>"

definition send :: "api_call \<Rightarrow> world \<Rightarrow> world" where
  "send c w = w\<lparr>requests := requests w @ [c]\<rparr>"

text \<open>
  \<open>window.gapi.client.drive\<close> is there. Where it is not, the expressions
  \<open>window.gapi.client.drive.files.list\<close> and \<open>...files.get\<close> throw a
  \<open>TypeError\<close> before any request is made; \<open>no_drive_api\<close> stands for
  it, with the part of its message that does not depend on the engine or on which
  property is the missing one.
\<close>

definition drive_api :: "world \<Rightarrow> bool" where
  "drive_api w = (gapi_client w = ClientWithDrive)"

definition no_drive_api :: error where
  "no_drive_api = Error ''Cannot read properties of undefined''"

text \<open>The module as the page loads it, in a browser with the given clock, storage and Drive.\<close>

definition page_load :: "int \<Rightarrow> (string \<rightharpoonup> string) \<Rightarrow> drive_file list \<Rightarrow> world" where
  "page_load t ls d =
     \<lparr>now = t, localStorage = ls, libs_present = False, gapi_client = NoClient,
      scriptsPromise = None, tokenClient = False, gapiInited = False, gisInited = False,
      gapi_token = None, accessToken = None, tokenExpiry = None, configFileId = None,
      cache = [], cache_proto = ObjectPrototype, saveTimeout = None, timers = [], timer_seq = 0, drive = d, requests = [],
      console = [], alerts = []\<rparr>"

subsection \<open>Scripts and token (lines 20--126)\<close>

text \<open>
  \<open>loadGoogleScripts\<close>: one promise for all callers. With both libraries already on
  the page it resolves at once and sets no flag; otherwise it loads both, and on success
  both flags and the token client are set and the client library holds the Drive API.
  What a failed load had set before it failed is not modelled: the promise stays
  rejected, so no caller gets past \<open>initialize\<close> on that path.
\<close>

definition loadGoogleScripts :: "env \<Rightarrow> world \<Rightarrow> promise \<times> world" where
  "loadGoogleScripts e w =
     (case scriptsPromise w of
        Some p \<Rightarrow> (p, w)
      | None \<Rightarrow>
          if libs_present w then (Resolved, w\<lparr>scriptsPromise := Some Resolved\<rparr>)
          else (case script_load e of
                  Some err \<Rightarrow> (Rejected err, w\<lparr>scriptsPromise := Some (Rejected err)\<rparr>)
                | None \<Rightarrow>
                    (Resolved,
                     w\<lparr>scriptsPromise := Some Resolved, libs_present := True,
                       gapi_client := ClientWithDrive,
                       gapiInited := True, gisInited := True, tokenClient := True\<rparr>)))"

text \<open>\<open>accessToken !== null && tokenExpiry > Date.now()\<close>; a \<open>null\<close> expiry compares as 0.\<close>

definition hasValidToken :: "world \<Rightarrow> bool" where
  "hasValidToken w =
     (accessToken w \<noteq> None \<and> (case tokenExpiry w of None \<Rightarrow> 0 | Some x \<Rightarrow> x) > now w)"

definition TOKEN_KEY :: string where "TOKEN_KEY = ''gdrive_token''"
definition EXPIRY_KEY :: string where "EXPIRY_KEY = ''gdrive_expiry''"

text \<open>Lines 93--95: \<open>if (window.gapi && window.gapi.client)\<close>.\<close>

definition set_gapi_token :: "world \<Rightarrow> world" where
  "set_gapi_token w = (if gapi_client w \<noteq> NoClient then w\<lparr>gapi_token := accessToken w\<rparr> else w)"

definition saveToken :: "string \<Rightarrow> world \<Rightarrow> world" where
  "saveToken token w =
     set_gapi_token
       (w\<lparr>accessToken := Some token,
          tokenExpiry := Some (now w + 3550 * 1000),
          localStorage := (localStorage w)
            (TOKEN_KEY \<mapsto> token, EXPIRY_KEY \<mapsto> String_of_int (now w + 3550 * 1000))\<rparr>)"

definition clearToken :: "world \<Rightarrow> world" where
  "clearToken w =
     w\<lparr>accessToken := None, tokenExpiry := None,
       localStorage := (localStorage w)(TOKEN_KEY := None, EXPIRY_KEY := None)\<rparr>"

text \<open>
  \<open>authenticate\<close>: the consent flow answers with an error or with a token. A popup
  that the user never answers leaves the promise pending; that is outside the model.
\<close>

definition authenticate :: "env \<Rightarrow> world \<Rightarrow> string outcome" where
  "authenticate e w =
     (if \<not> tokenClient w then (Inl (Error ''Google Scripts not loaded''), w)
      else (case auth_response e of
              Inl err \<Rightarrow> (Inl err, w)
            | Inr token \<Rightarrow> (Inr token, saveToken token w)))"

subsection \<open>File resolution and document transfer (lines 194--295)\<close>

definition CONFIG_NAME :: string where "CONFIG_NAME = ''focusnook-data.json''"

definition truthy_id :: "world \<Rightarrow> bool" where
  "truthy_id w = truthy_str (configFileId w)"

definition find_file :: "string \<Rightarrow> drive_file list \<Rightarrow> drive_file option" where
  "find_file i fs = find (\<lambda>f. file_id f = i) fs"

text \<open>
  \<open>loadAllData\<close>, lines 252--266. The cache is replaced by a new object, with the
  prototype of every new object: by the parsed file, or by \<open>{}\<close> after any failure
  of the read (a file that Drive no longer has, the missing Drive API). The function is
  split where it awaits the answer (line 256): \<open>load_response\<close> is what runs when
  the answer to the request for file \<open>i\<close> arrives, and other calls on the adapter
  can run between the two.
\<close>

definition load_failed :: "world \<Rightarrow> world" where
  "load_failed w =
     (console_log ERROR ''Error loading data:'' w)\<lparr>cache := [], cache_proto := ObjectPrototype\<rparr>"

definition load_response :: "env \<Rightarrow> string \<Rightarrow> world \<Rightarrow> unit outcome" where
  "load_response e i w =
     (case get_fault e of
        Some err \<Rightarrow> (Inr (), load_failed w)
      | None \<Rightarrow>
          (case find_file i (drive w) of
             None \<Rightarrow> (Inr (), load_failed w)
           | Some f \<Rightarrow>
               (Inr (),
                w\<lparr>cache := (case file_content f of None \<Rightarrow> [] | Some d \<Rightarrow> d),
                  cache_proto := ObjectPrototype\<rparr>)))"

definition loadAllData :: "env \<Rightarrow> world \<Rightarrow> unit outcome" where
  "loadAllData e w =
     (case configFileId w of
        None \<Rightarrow> (Inr (), w)
      | Some i \<Rightarrow>
          if i = [] then (Inr (), w)
          else if \<not> drive_api w then (Inr (), load_failed w)
          else load_response e i (send (FilesGet i) w))"

text \<open>
  \<open>createConfigFile\<close>: a multipart upload of the metadata and the empty object. A
  rejected fetch is logged and thrown again. A response with a failure status is not an
  exception: its body has no \<open>id\<close>, so \<open>configFileId\<close> becomes \<open>undefined\<close>.
\<close>

definition createConfigFile :: "env \<Rightarrow> world \<Rightarrow> unit outcome" where
  "createConfigFile e w =
     (let w1 = send (FilesCreate []) w in
      case create_outcome e of
        NetFail err \<Rightarrow> (Inl err, console_log ERROR ''Error creating file:'' w1)
      | HttpFail st \<Rightarrow>
          (Inr (), w1\<lparr>configFileId := None, cache := [], cache_proto := ObjectPrototype\<rparr>)
      | HttpOk \<Rightarrow>
          (Inr (),
           w1\<lparr>drive := drive w1 @
                  [\<lparr>file_id = new_file_id e, file_name = CONFIG_NAME, trashed = False,
                    file_content = Some []\<rparr>],
               configFileId := Some (new_file_id e), cache := [],
               cache_proto := ObjectPrototype\<rparr>))"

text \<open>The answer of Drive to the query \<open>name = 'focusnook-data.json' and trashed = false\<close>.\<close>

definition matching_files :: "drive_file list \<Rightarrow> drive_file list" where
  "matching_files fs = filter (\<lambda>f. file_name f = CONFIG_NAME \<and> \<not> trashed f) fs"

text \<open>
  \<open>findOrCreateConfigFile\<close>, lines 194--216. Everything is inside the \<open>try\<close>:
  the \<open>TypeError\<close> of line 197 when the Drive API is missing, a rejected list call
  and whatever \<open>createConfigFile\<close> throws are logged and thrown again.
\<close>

definition findOrCreateConfigFile :: "env \<Rightarrow> world \<Rightarrow> unit outcome" where
  "findOrCreateConfigFile e w =
     (if \<not> drive_api w
      then (Inl no_drive_api, console_log ERROR ''Error finding config file:'' w)
      else
        (let w1 = send FilesList w in
         case list_fault e of
           Some err \<Rightarrow> (Inl err, console_log ERROR ''Error finding config file:'' w1)
         | None \<Rightarrow>
             (case matching_files (drive w1) of
                f # fs \<Rightarrow>
                  (case loadAllData e (w1\<lparr>configFileId := Some (file_id f)\<rparr>) of
                     (Inl err, w2) \<Rightarrow> (Inl err, console_log ERROR ''Error finding config file:'' w2)
                   | (Inr u, w2) \<Rightarrow> (Inr (), w2))
              | [] \<Rightarrow>
                  (case createConfigFile e w1 of
                     (Inl err, w2) \<Rightarrow> (Inl err, console_log ERROR ''Error finding config file:'' w2)
                   | (Inr u, w2) \<Rightarrow> (Inr (), w2)))))"

text \<open>
  \<open>saveAllData\<close>: without a file id nothing is sent. Otherwise the whole cache is
  uploaded; a rejected fetch and a failure status are logged, nothing is thrown and
  nothing is tried again. Drive answers a file it does not have with status 404.
\<close>

definition write_content :: "string \<Rightarrow> doc \<Rightarrow> drive_file list \<Rightarrow> drive_file list" where
  "write_content i d fs = map (\<lambda>f. if file_id f = i then f\<lparr>file_content := Some d\<rparr> else f) fs"

definition saveAllData :: "env \<Rightarrow> world \<Rightarrow> unit outcome" where
  "saveAllData e w =
     (case configFileId w of
        None \<Rightarrow> (Inr (), console_log WARN ''saveAllData: No configFileId, skipping save.'' w)
      | Some i \<Rightarrow>
          if i = [] then (Inr (), console_log WARN ''saveAllData: No configFileId, skipping save.'' w)
          else
            (let w1 = send (FilesPatch i (cache w)) (console_log LOG ''Saving data to Drive...'' w) in
             case patch_outcome e of
               NetFail err \<Rightarrow> (Inr (), console_log ERROR ''Error saving data:'' w1)
             | HttpFail st \<Rightarrow> (Inr (), console_log ERROR ''Drive Save Failed:'' w1)
             | HttpOk \<Rightarrow>
                 (case find_file i (drive w1) of
                    None \<Rightarrow> (Inr (), console_log ERROR ''Drive Save Failed:'' w1)
                  | Some f \<Rightarrow>
                      (Inr (),
                       console_log LOG ''Drive Save Success:''
                         (w1\<lparr>drive := write_content i (cache w1) (drive w1)\<rparr>)))))"

subsection \<open>Session (lines 134--192)\<close>

definition initialize :: "env \<Rightarrow> world \<Rightarrow> unit outcome" where
  "initialize e w =
     (case loadGoogleScripts e w of
        (Resolved, w1) \<Rightarrow> (Inr (), w1)
      | (Rejected err, w1) \<Rightarrow> (Inl err, w1))"

definition connect :: "env \<Rightarrow> world \<Rightarrow> bool outcome" where
  "connect e w =
     (case initialize e w of
        (Inl err, w1) \<Rightarrow> (Inl err, w1)
      | (Inr u, w1) \<Rightarrow>
          if \<not> gisInited w1 \<or> \<not> gapiInited w1
          then (Inl (Error ''Google scripts failed to initialize''), w1)
          else (case authenticate e w1 of
                  (Inl err, w2) \<Rightarrow> (Inl err, w2)
                | (Inr token, w2) \<Rightarrow>
                    (case findOrCreateConfigFile e w2 of
                       (Inl err, w3) \<Rightarrow> (Inl err, w3)
                     | (Inr u', w3) \<Rightarrow> (Inr True, w3))))"

text \<open>
  The test of line 162 on the stored token (\<open>Number(null)\<close> is 0, and is only
  reached behind the test that the entry is there), and lines 167--170.
\<close>

definition restore_gapi_token :: "world \<Rightarrow> world" where
  "restore_gapi_token w =
     (if gapi_client w \<noteq> NoClient
      then (console_log LOG ''[Drive Debug] Setting token in gapi'' w)\<lparr>gapi_token := accessToken w\<rparr>
      else w)"

definition stored_expiry :: "world \<Rightarrow> int option" where
  "stored_expiry w = (case localStorage w EXPIRY_KEY of None \<Rightarrow> Some 0 | Some s \<Rightarrow> Number_str s)"

definition stored_token_valid :: "world \<Rightarrow> bool" where
  "stored_token_valid w =
     (truthy_str (localStorage w TOKEN_KEY) \<and> truthy_str (localStorage w EXPIRY_KEY) \<and>
      num_gt (stored_expiry w) (now w))"

definition restoreSession :: "env \<Rightarrow> world \<Rightarrow> bool outcome" where
  "restoreSession e w =
     (case initialize e w of
        (Inl err, w1) \<Rightarrow>
          (Inr False, alert (''Google Scripts Failed to Load: '' @ message_text err) w1)
      | (Inr u, w1) \<Rightarrow>
          (let w2 = console_log LOG ''[Drive Debug] restoring session...'' w1 in
           if stored_token_valid w2 then
             (let w3 = console_log LOG ''[Drive Debug] Finding config file...''
                         (restore_gapi_token
                            (w2\<lparr>accessToken := localStorage w2 TOKEN_KEY,
                                tokenExpiry := stored_expiry w2\<rparr>)) in
              case findOrCreateConfigFile e w3 of
                (Inr u', w4) \<Rightarrow>
                  (Inr True, console_log LOG ''[Drive Debug] Session restored successfully'' w4)
              | (Inl err, w4) \<Rightarrow>
                  (Inr False,
                   clearToken
                     (alert (''Session Restore API Error: '' @ message_or_json err)
                        (console_log WARN
                           ''[Drive Debug] Cached token invalid or expired on usage:'' w4))))
           else
             (let w3 = console_log LOG ''[Drive Debug] No valid token found in storage.'' w2 in
              (Inr False,
               if truthy_str (localStorage w3 TOKEN_KEY)
               then alert ''Session expired or invalid. Please login again.'' w3
               else w3))))"

subsection \<open>The storage interface and its timer (lines 299--326)\<close>

text \<open>
  \<open>getItem\<close>: \<open>Object.keys(this.cache).length === 0\<close> counts the own
  properties; \<open>this.cache[key]\<close> also finds what the cache inherits.
\<close>

definition getItem :: "env \<Rightarrow> string \<Rightarrow> world \<Rightarrow> jsval outcome" where
  "getItem e key w =
     (if \<not> truthy_str (accessToken w) \<and> \<not> truthy_id w then (Inr (Json JNull), w)
      else
        (case (if truthy_id w \<and> cache w = [] then loadAllData e w else (Inr (), w)) of
           (Inl err, w1) \<Rightarrow> (Inl err, w1)
         | (Inr u, w1) \<Rightarrow> (Inr (or_null (js_get (cache w1) (cache_proto w1) key)), w1)))"

definition clearTimeout :: "nat \<Rightarrow> world \<Rightarrow> world" where
  "clearTimeout i w = w\<lparr>timers := filter (\<lambda>t. fst t \<noteq> i) (timers w)\<rparr>"

text \<open>\<open>setTimeout\<close> returns a fresh positive handle.\<close>

definition setTimeout :: "int \<Rightarrow> world \<Rightarrow> nat \<times> world" where
  "setTimeout delay w =
     (Suc (timer_seq w),
      w\<lparr>timer_seq := Suc (timer_seq w),
        timers := timers w @ [(Suc (timer_seq w), now w + delay)]\<rparr>)"

text \<open>\<open>setItem\<close>: the assignment \<open>this.cache[key] = value\<close>, then the timer.\<close>

definition setItem :: "string \<Rightarrow> json \<Rightarrow> world \<Rightarrow> unit outcome" where
  "setItem key v w =
     (let w1 = w\<lparr>cache := fst (js_set key v (cache w) (cache_proto w)),
                 cache_proto := snd (js_set key v (cache w) (cache_proto w))\<rparr>;
          w2 = (case saveTimeout w1 of
                  None \<Rightarrow> w1
                | Some i \<Rightarrow> if i \<noteq> 0 then clearTimeout i w1 else w1);
          (h, w3) = setTimeout 2000 w2
      in (Inr (), w3\<lparr>saveTimeout := Some h\<rparr>))"


text \<open>
  The event loop: time passes, and every timer that is due runs its callback
  \<open>async () => { await this.saveAllData(); }\<close> once and is gone.
\<close>

fun fire :: "env \<Rightarrow> (nat \<times> int) list \<Rightarrow> world \<Rightarrow> world" where
  "fire e [] w = w"
| "fire e (t # ts) w = fire e ts (snd (saveAllData e w))"

definition elapse :: "env \<Rightarrow> int \<Rightarrow> world \<Rightarrow> world" where
  "elapse e d w =
     (let w1 = w\<lparr>now := now w + d\<rparr> in
      fire e (filter (\<lambda>t. snd t \<le> now w1) (timers w1))
        (w1\<lparr>timers := filter (\<lambda>t. \<not> snd t \<le> now w1) (timers w1)\<rparr>))"



fun is_create :: "api_call \<Rightarrow> bool" where
  "is_create (FilesCreate d) = True"
| "is_create c = False"

definition creates :: "world \<Rightarrow> api_call list" where
  "creates w = filter is_create (requests w)"


section \<open>The task client (src/unnamed/part\_001 and src/src/services/todoistApi.js)\<close>

text \<open>
  The repository holds two versions of the client. Both map an upstream task to the same
  six fields. A field of the local task is \<open>None\<close> when the upstream task lacks the
  property (\<open>undefined\<close>). The names read here are properties of objects only; reading
  any of them from \<open>null\<close> throws a \<open>TypeError\<close>.
\<close>

definition field :: "json \<Rightarrow> string \<Rightarrow> json option" where
  "field v name = (case v of JObj d \<Rightarrow> map_of d name | _ \<Rightarrow> None)"

text \<open>\<open>a ?? b\<close> and \<open>a || b\<close> on a value that may be \<open>undefined\<close>.\<close>

definition coalesce :: "json option \<Rightarrow> json option \<Rightarrow> json option" where
  "coalesce a b = (if a = None \<or> a = Some JNull then b else a)"

definition js_or :: "json option \<Rightarrow> json option \<Rightarrow> json option" where
  "js_or a b = (case a of None \<Rightarrow> b | Some v \<Rightarrow> if truthy v then a else b)"

record task =
  t_id :: "json option"
  t_text :: "json option"
  t_completed :: "json option"
  t_todoistId :: "json option"
  t_projectId :: "json option"
  t_due :: "json option"

text \<open>The arrow function of \<open>tasks.map\<close>, part\_001 lines 115--123.\<close>

definition task_of :: "json \<Rightarrow> error + task" where
  "task_of t =
     (if t = JNull then Inl (Error ''TypeError: Cannot read properties of null'')
      else Inr \<lparr>t_id = field t ''id'',
                t_text = field t ''content'',
                t_completed = coalesce (field t ''checked'')
                                (coalesce (field t ''is_completed'') (Some (JBool False))),
                t_todoistId = field t ''id'',
                t_projectId = field t ''project_id'',
                t_due = field t ''due''\<rparr>)"

text \<open>The same in src/src/services/todoistApi.js, lines 97--104.\<close>

definition task_of_rest_v2 :: "json \<Rightarrow> error + task" where
  "task_of_rest_v2 t =
     (if t = JNull then Inl (Error ''TypeError: Cannot read properties of null'')
      else Inr \<lparr>t_id = field t ''id'',
                t_text = field t ''content'',
                t_completed = js_or (field t ''is_completed'') (Some (JBool False)),
                t_todoistId = field t ''id'',
                t_projectId = field t ''project_id'',
                t_due = field t ''due''\<rparr>)"

text \<open>\<open>Array.prototype.map\<close> with a callback that may throw: the first exception ends it.\<close>

fun map_throwing :: "('a \<Rightarrow> error + 'b) \<Rightarrow> 'a list \<Rightarrow> error + 'b list" where
  "map_throwing f [] = Inr []"
| "map_throwing f (x # xs) =
     (case f x of
        Inl e \<Rightarrow> Inl e
      | Inr y \<Rightarrow> (case map_throwing f xs of Inl e \<Rightarrow> Inl e | Inr ys \<Rightarrow> Inr (y # ys)))"

text \<open>
  The entries of the \<open>URLSearchParams\<close> that \<open>getTasks\<close> builds from
  \<open>options.filter\<close> (\<open>None\<close>: not given, so the default \<open>'today'\<close>).
\<close>

definition tasks_query :: "string option \<Rightarrow> (string \<times> string) list" where
  "tasks_query opt =
     (let filter_name = (case opt of None \<Rightarrow> ''today'' | Some f \<Rightarrow> f) in
      if filter_name = ''today'' then [(''filter'', ''today'')]
      else if filter_name \<noteq> ''all'' \<and> filter_name \<noteq> [] then [(''project_id'', filter_name)]
      else [])"

text \<open>
  \<open>request\<close> sends through the proxy and is a parameter here: it is given the path,
  the query entries and the token, and throws or returns the parsed body (\<open>null\<close> for
  status 204).
\<close>

type_synonym requester = "string \<Rightarrow> (string \<times> string) list \<Rightarrow> string \<Rightarrow> error + json"

text \<open>
  Part\_001 line 114: \<open>Array.isArray(data) ? data : (data.results ?? [])\<close>, and what
  \<open>.map\<close> then finds: a \<open>results\<close> that is neither nullish nor an array has no
  \<open>map\<close> method.
\<close>

definition tasks_of :: "json \<Rightarrow> error + json list" where
  "tasks_of data =
     (case data of
        JArr ts \<Rightarrow> Inr ts
      | JNull \<Rightarrow> Inl (Error ''TypeError: Cannot read properties of null'')
      | JObj d \<Rightarrow>
          (case map_of d ''results'' of
             None \<Rightarrow> Inr []
           | Some JNull \<Rightarrow> Inr []
           | Some (JArr ts) \<Rightarrow> Inr ts
           | Some r \<Rightarrow> Inl (Error ''TypeError: tasks.map is not a function''))
      | _ \<Rightarrow> Inr [])"

definition getTasks :: "requester \<Rightarrow> string \<Rightarrow> string option \<Rightarrow> error + task list" where
  "getTasks request token opt =
     (case request ''/tasks'' (tasks_query opt) token of
        Inl e \<Rightarrow> Inl e
      | Inr data \<Rightarrow>
          (case tasks_of data of
             Inl e \<Rightarrow> Inl e
           | Inr ts \<Rightarrow> map_throwing task_of ts))"

text \<open>src/src/services/todoistApi.js lines 96--97: the body itself is mapped.\<close>

definition tasks_of_rest_v2 :: "json \<Rightarrow> error + json list" where
  "tasks_of_rest_v2 data =
     (case data of
        JArr ts \<Rightarrow> Inr ts
      | JNull \<Rightarrow> Inl (Error ''TypeError: Cannot read properties of null'')
      | _ \<Rightarrow> Inl (Error ''TypeError: tasks.map is not a function''))"

definition getTasks_rest_v2 :: "requester \<Rightarrow> string \<Rightarrow> string option \<Rightarrow> error + task list" where
  "getTasks_rest_v2 request token opt =
     (case request ''/tasks'' (tasks_query opt) token of
        Inl e \<Rightarrow> Inl e
      | Inr data \<Rightarrow>
          (case tasks_of_rest_v2 data of
             Inl e \<Rightarrow> Inl e
           | Inr ts \<Rightarrow> map_throwing task_of_rest_v2 ts))"

text \<open>The paginated envelope \<open>{results, next_cursor}\<close> around a list of tasks.\<close>

definition envelope :: "json list \<Rightarrow> json \<Rightarrow> json" where
  "envelope ts cursor = JObj [(''results'', JArr ts), (''next_cursor'', cursor)]"

section \<open>The application shell (src/unnamed/part\_000)\<close>

subsection \<open>State and write-through effects (lines 21--80, 226--276, 324--327)\<close>

text \<open>
  A space is an object with an \<open>id\<close>; the music state is an object. The other pieces
  are opaque values.
\<close>

record space =
  space_id :: json
  space_rest :: doc

record shell =
  isLoading :: bool
  needsDriveAuth :: bool
  customSpaces :: json
  currentSpace :: "space option"
  enabledWidgets :: json
  widgetVisibility :: json
  settings :: json
  todoistConfig :: json
  musicState :: doc

text \<open>
  The state as \<open>useState\<close> initialises it; the first default space, the initial widget
  maps and settings, and the first default stream come from data that is not part of
  the sources, and are parameters.
\<close>

definition initial_shell :: "space option \<Rightarrow> json \<Rightarrow> json \<Rightarrow> json \<Rightarrow> json \<Rightarrow> shell" where
  "initial_shell space0 enabled0 visible0 settings0 stream0 =
     \<lparr>isLoading = True, needsDriveAuth = False, customSpaces = JArr [],
      currentSpace = space0, enabledWidgets = enabled0, widgetVisibility = visible0,
      settings = settings0,
      todoistConfig = JObj [(''token'', JStr []), (''isConnected'', JBool False),
                            (''selectedFilter'', JStr ''today'')],
      musicState = [(''selectedStream'', stream0), (''isPlaying'', JBool False),
                    (''volume'', JNum 50), (''isMuted'', JBool False),
                    (''customStreams'', JArr [])]\<rparr>"

text \<open>
  The pieces of state that effects depend on. An effect \<open>useEffect(f, deps)\<close> runs
  \<open>f\<close> after a render in which one of \<open>deps\<close> has changed (after the first render:
  all of them). A call of a state setter with a new object changes that piece.
\<close>

datatype dep =
    Dep_isLoading
  | Dep_enabledWidgets
  | Dep_widgetVisibility
  | Dep_currentSpace
  | Dep_settings
  | Dep_todoistConfig
  | Dep_musicState
  | Dep_customSpaces

definition useEffect :: "dep list \<Rightarrow> dep list \<Rightarrow> 'a list \<Rightarrow> 'a list" where
  "useEffect deps changed body = (if list_ex (\<lambda>d. d \<in> set changed) deps then body else [])"

text \<open>Each effect as the list of the \<open>storage.set(key, value)\<close> calls it makes.\<close>

definition save_enabled_widgets :: "shell \<Rightarrow> (string \<times> json) list" where
  "save_enabled_widgets s =
     (if \<not> isLoading s then [(''focusnook-enabled-widgets'', enabledWidgets s)] else [])"

definition save_widget_visibility :: "shell \<Rightarrow> (string \<times> json) list" where
  "save_widget_visibility s =
     (if \<not> isLoading s then [(''focusnook-widget-visibility'', widgetVisibility s)] else [])"

definition save_current_space :: "shell \<Rightarrow> (string \<times> json) list" where
  "save_current_space s =
     (case currentSpace s of
        None \<Rightarrow> []
      | Some sp \<Rightarrow> if \<not> isLoading s then [(''focusnook-current-space'', space_id sp)] else [])"

definition save_settings :: "shell \<Rightarrow> (string \<times> json) list" where
  "save_settings s = (if \<not> isLoading s then [(''focusnook-settings'', settings s)] else [])"

definition save_todoist :: "shell \<Rightarrow> (string \<times> json) list" where
  "save_todoist s = (if \<not> isLoading s then [(''focusnook-todoist'', todoistConfig s)] else [])"

definition save_music :: "shell \<Rightarrow> (string \<times> json) list" where
  "save_music s =
     (if \<not> isLoading s then
        (''focusnook-music'', JObj (musicState s)) #
        (case map_of (musicState s) ''customStreams'' of
           None \<Rightarrow> []
         | Some cs \<Rightarrow> if truthy cs then [(''chillspace-custom-streams'', cs)] else [])
      else [])"

definition save_custom_spaces :: "shell \<Rightarrow> (string \<times> json) list" where
  "save_custom_spaces s =
     (if \<not> isLoading s then [(''chillspace-custom-spaces'', customSpaces s)] else [])"

text \<open>The \<open>storage.set\<close> calls of one render, the effects in the order of the source.\<close>

definition render_writes :: "dep list \<Rightarrow> shell \<Rightarrow> (string \<times> json) list" where
  "render_writes changed s =
     useEffect [Dep_enabledWidgets, Dep_isLoading] changed (save_enabled_widgets s) @
     useEffect [Dep_widgetVisibility, Dep_isLoading] changed (save_widget_visibility s) @
     useEffect [Dep_currentSpace, Dep_isLoading] changed (save_current_space s) @
     useEffect [Dep_settings, Dep_isLoading] changed (save_settings s) @
     useEffect [Dep_todoistConfig, Dep_isLoading] changed (save_todoist s) @
     useEffect [Dep_musicState, Dep_isLoading] changed (save_music s) @
     useEffect [Dep_customSpaces, Dep_isLoading] changed (save_custom_spaces s)"

text \<open>The keys of the one batched read of \<open>loadData\<close>, lines 115--124.\<close>

definition loadData_keys :: "string list" where
  "loadData_keys =
     [''focusnook-custom-spaces'', ''focusnook-current-space'', ''focusnook-enabled-widgets'',
      ''focusnook-widget-visibility'', ''focusnook-settings'', ''focusnook-todoist'',
      ''focusnook-music'', ''focusnook-custom-streams'']"

text \<open>
  Modelled from the spec: the persistence facade (services/storage, which is not among
  the sources) delegates \<open>set\<close> to the adapter that is active. With the Drive adapter
  active, the \<open>storage.set\<close> calls of a render are calls of its \<open>setItem\<close>, in
  order.
\<close>

fun store_all :: "(string \<times> json) list \<Rightarrow> world \<Rightarrow> world" where
  "store_all [] w = w"
| "store_all (kv # kvs) w = store_all kvs (snd (setItem (fst kv) (snd kv) w))"

subsection \<open>Boot (lines 157--203)\<close>

datatype adapter = LocalStorageAdapter | GoogleDriveAdapter

text \<open>What \<open>init\<close> does to the persistence facade and to the load, in order.\<close>

datatype boot_step = SetAdapter adapter | LoadData

definition STORAGE_TYPE_KEY :: string where "STORAGE_TYPE_KEY = ''focusnook-storage-type''"

text \<open>Lines 160--171: the recorded preference, and the recovery from a token that is still valid.\<close>

definition recover_storage_type :: "world \<Rightarrow> string option \<times> world" where
  "recover_storage_type w =
     (let storageType = localStorage w STORAGE_TYPE_KEY in
      if \<not> truthy_str storageType then
        (if stored_token_valid w then
           (Some ''gdrive'',
            (console_log LOG ''Recovering lost storage type based on existing token'' w)
              \<lparr>localStorage := (localStorage w)(STORAGE_TYPE_KEY \<mapsto> ''gdrive'')\<rparr>)
         else (storageType, w))
      else (storageType, w))"

definition init :: "env \<Rightarrow> world \<Rightarrow> shell \<Rightarrow> world \<times> shell \<times> boot_step list" where
  "init e w s =
     (case recover_storage_type w of
        (storageType, w1) \<Rightarrow>
          if storageType = Some ''gdrive'' then
            (case initialize e w1 of
               (Inl err, w2) \<Rightarrow>
                 (console_log ERROR ''Failed to init drive scripts, falling back to local'' w2, s,
                  [SetAdapter LocalStorageAdapter, LoadData])
             | (Inr u, w2) \<Rightarrow>
                 (case restoreSession e w2 of
                    (Inl err, w3) \<Rightarrow>
                      (console_log ERROR ''Failed to init drive scripts, falling back to local'' w3, s,
                       [SetAdapter LocalStorageAdapter, LoadData])
                  | (Inr restored, w3) \<Rightarrow>
                      if restored then
                        (console_log LOG ''Drive session restored from cache'' w3, s,
                         [SetAdapter GoogleDriveAdapter, LoadData])
                      else (w3, s\<lparr>needsDriveAuth := True, isLoading := False\<rparr>, [])))
          else (w1, s, [LoadData]))"

section \<open>Predicates and concrete states used in the statements\<close>

text \<open>
  Every pending timer is the one the adapter holds the handle of. This holds when the
  page has loaded, and \<open>setItem\<close> and the event loop keep it (lemmas
  \<open>timers_owned_page_load\<close>, \<open>timers_owned_setItem\<close>, \<open>timers_owned_elapse\<close>).
\<close>

definition timers_owned :: "world \<Rightarrow> bool" where
  "timers_owned w = list_all (\<lambda>t. saveTimeout w = Some (fst t) \<and> fst t \<noteq> 0) (timers w)"


text \<open>The cached token is gone from memory and from local storage.\<close>

definition token_cleared :: "world \<Rightarrow> bool" where
  "token_cleared w =
     (accessToken w = None \<and> tokenExpiry w = None \<and>
      localStorage w TOKEN_KEY = None \<and> localStorage w EXPIRY_KEY = None)"

text \<open>The state in which \<open>restoreSession\<close> calls \<open>findOrCreateConfigFile\<close> (lines 163--173).\<close>

definition restoring :: "world \<Rightarrow> world" where
  "restoring w1 =
     console_log LOG ''[Drive Debug] Finding config file...''
       (restore_gapi_token
          ((console_log LOG ''[Drive Debug] restoring session...'' w1)
             \<lparr>accessToken := localStorage w1 TOKEN_KEY, tokenExpiry := stored_expiry w1\<rparr>))"

text \<open>An outside where every call succeeds, and outsides where one call fails.\<close>

definition env_ok :: env where
  "env_ok =
     \<lparr>script_load = None, auth_response = Inr ''ya29.token'', list_fault = None,
      get_fault = None, create_outcome = HttpOk, new_file_id = ''file-1'',
      patch_outcome = HttpOk\<rparr>"

definition env_no_scripts :: env where
  "env_no_scripts = env_ok\<lparr>script_load := Some (Error ''Failed to load gapi script'')\<rparr>"

definition env_list_fails :: env where
  "env_list_fails = env_ok\<lparr>list_fault := Some (Reject ''{status:401}'')\<rparr>"

definition env_create_fails :: env where
  "env_create_fails = env_ok\<lparr>create_outcome := NetFail (Error ''Failed to fetch'')\<rparr>"


definition env_offline :: env where
  "env_offline =
     env_ok\<lparr>get_fault := Some (Error ''Failed to fetch''),
            patch_outcome := NetFail (Error ''Failed to fetch'')\<rparr>"

text \<open>
  A fresh browser at time 1000; the state in which \<open>connect\<close> then calls
  \<open>findOrCreateConfigFile\<close> (line 144: the scripts have loaded and the user has
  consented); the state after a successful \<open>connect\<close>; and the state after a
  \<open>connect\<close> whose create request Drive refused.
\<close>

definition fresh_world :: world where
  "fresh_world = page_load 1000 Map.empty []"

definition connecting :: "env \<Rightarrow> world \<Rightarrow> world" where
  "connecting e w = snd (authenticate e (snd (initialize e w)))"

definition ready_world :: world where
  "ready_world = snd (connect env_ok fresh_world)"


text \<open>
  A value that \<open>typeof\<close> calls an object: the values the setter of
  \<open>__proto__\<close> accepts.
\<close>

fun is_object :: "json \<Rightarrow> bool" where
  "is_object (JObj d) = True"
| "is_object (JArr xs) = True"
| "is_object JNull = True"
| "is_object v = False"

text \<open>
  A call of \<open>setItem\<close> that runs while a load of file \<open>i\<close> is awaiting its
  answer: the request has been sent, the call runs, the answer arrives.
\<close>

definition set_during_load :: "env \<Rightarrow> string \<Rightarrow> string \<Rightarrow> json \<Rightarrow> world \<Rightarrow> world" where
  "set_during_load e i k v w =
     snd (load_response e i (snd (setItem k v (send (FilesGet i) w))))"

text \<open>
  A browser that restarts at time 5000 with a stored token and the recorded preference
  for Drive; the token expired one millisecond ago, or is valid for one more.
\<close>

definition stored_session :: "string \<Rightarrow> string \<rightharpoonup> string" where
  "stored_session expiry =
     [TOKEN_KEY \<mapsto> ''ya29.token'', EXPIRY_KEY \<mapsto> expiry, STORAGE_TYPE_KEY \<mapsto> ''gdrive'']"

definition expired_world :: world where
  "expired_world = page_load 5000 (stored_session ''4999'') []"

definition valid_world :: world where
  "valid_world = page_load 5000 (stored_session ''5001'') []"

text \<open>A browser that lost the recorded preference but holds a token that is still valid.\<close>

definition recovering_world :: world where
  "recovering_world =
     page_load 5000 [TOKEN_KEY \<mapsto> ''ya29.token'', EXPIRY_KEY \<mapsto> ''5001''] []"

text \<open>The page is loaded again at a later time: only local storage and the Drive persist.\<close>

definition reload :: "int \<Rightarrow> world \<Rightarrow> world" where
  "reload t w = page_load t (localStorage w) (drive w)"

text \<open>
  The keys that some effect writes. A session with the Drive adapter active: the writes
  of one render and the time that passes after them; and the next start: the page is
  loaded again and the session restored. In the example the user adds a custom space
  and the flush runs.
\<close>

definition written_keys :: "string set" where
  "written_keys =
     {''focusnook-enabled-widgets'', ''focusnook-widget-visibility'', ''focusnook-current-space'',
      ''focusnook-settings'', ''focusnook-todoist'', ''focusnook-music'',
      ''chillspace-custom-streams'', ''chillspace-custom-spaces''}"

definition my_spaces :: json where
  "my_spaces = JArr [JObj [(''id'', JStr ''my-space''), (''isCustom'', JBool True)]]"

definition after_session :: "env \<Rightarrow> dep list \<Rightarrow> shell \<Rightarrow> int \<Rightarrow> world \<Rightarrow> world" where
  "after_session e changed s d w = elapse e d (store_all (render_writes changed s) w)"

definition restart :: "env \<Rightarrow> int \<Rightarrow> world \<Rightarrow> world" where
  "restart e t w = snd (restoreSession e (reload t w))"

definition session_end :: "shell \<Rightarrow> world" where
  "session_end s =
     after_session env_ok [Dep_customSpaces] (s\<lparr>isLoading := False, customSpaces := my_spaces\<rparr>)
       2000 ready_world"

definition next_start :: "shell \<Rightarrow> world" where
  "next_start s = restart env_ok 5000 (session_end s)"

text \<open>One upstream task, and a proxy that answers it in each of the two shapes.\<close>

definition upstream_tasks :: "json list" where
  "upstream_tasks =
     [JObj [(''id'', JStr ''7''), (''content'', JStr ''Write''), (''checked'', JBool False),
            (''project_id'', JStr ''p1''), (''due'', JNull)]]"

definition flat_proxy :: requester where
  "flat_proxy path query token = Inr (JArr upstream_tasks)"

definition envelope_proxy :: requester where
  "envelope_proxy path query token = Inr (envelope upstream_tasks JNull)"

text \<open>The shell with small objects standing for the defaults.\<close>

definition shell0 :: shell where
  "shell0 =
     initial_shell (Some \<lparr>space_id = JStr ''lofi-cafe'', space_rest = []\<rparr>)
       (JObj [(''pomodoro'', JBool True)]) (JObj [(''pomodoro'', JBool True)])
       (JObj [(''showClock'', JBool True)]) (JObj [(''id'', JStr ''lofi-girl'')])"

section \<open>Properties\<close>

subsection \<open>What the operations leave alone\<close>


lemma saveAllData_keeps:
  "cache (snd (saveAllData e w)) = cache w"
  "cache_proto (snd (saveAllData e w)) = cache_proto w"
  "accessToken (snd (saveAllData e w)) = accessToken w"
  "configFileId (snd (saveAllData e w)) = configFileId w"
  "timers (snd (saveAllData e w)) = timers w"
  "saveTimeout (snd (saveAllData e w)) = saveTimeout w"
  "localStorage (snd (saveAllData e w)) = localStorage w"
  by (simp_all add: saveAllData_def Let_def console_log_def send_def split: option.split http.split)

lemma fire_keeps:
  "cache (fire e ts w) = cache w"
  "cache_proto (fire e ts w) = cache_proto w"
  "accessToken (fire e ts w) = accessToken w"
  "configFileId (fire e ts w) = configFileId w"
  "timers (fire e ts w) = timers w"
  "saveTimeout (fire e ts w) = saveTimeout w"
  by (induction ts arbitrary: w) (simp_all add: saveAllData_keeps)

lemma elapse_keeps:
  "cache (elapse e d w) = cache w"
  "cache_proto (elapse e d w) = cache_proto w"
  "accessToken (elapse e d w) = accessToken w"
  "configFileId (elapse e d w) = configFileId w"
  "saveTimeout (elapse e d w) = saveTimeout w"
  by (simp_all add: elapse_def Let_def fire_keeps)

lemma js_set_entry:
  "stores_entry k own p \<Longrightarrow> js_set k v own p = (AList.update k v own, p)"
  by (simp add: js_set_def)

lemma stores_entry_key: "k \<noteq> ''__proto__'' \<Longrightarrow> stores_entry k own p"
  by (simp add: stores_entry_def)


lemma js_get_own: "js_get (AList.update k v own) p k = Some (Json v)"
  by (simp add: js_get_def update_conv')

lemma setItem_state:
  "cache (snd (setItem k v w)) = fst (js_set k v (cache w) (cache_proto w))"
  "cache_proto (snd (setItem k v w)) = snd (js_set k v (cache w) (cache_proto w))"
  "accessToken (snd (setItem k v w)) = accessToken w"
  "configFileId (snd (setItem k v w)) = configFileId w"
  by (simp_all add: setItem_def Let_def setTimeout_def clearTimeout_def split: option.split)

lemma getItem_cached:
  "cache w \<noteq> [] \<or> \<not> truthy_id w \<Longrightarrow>
   fst (getItem e k w) =
     (if truthy_str (accessToken w) \<or> truthy_id w
      then Inr (or_null (js_get (cache w) (cache_proto w) k)) else Inr (Json JNull))"
  by (auto simp: getItem_def)

subsection \<open>The state after a successful connect\<close>

lemma String_of_int_3551000: "String_of_int 3551000 = ''3551000''"
  by (simp add: String_of_int_def digits_of.simps digit_char_def)

lemma ready_world_eq:
  "ready_world =
     \<lparr>now = 1000,
      localStorage = [TOKEN_KEY \<mapsto> ''ya29.token'', EXPIRY_KEY \<mapsto> ''3551000''],
      libs_present = True, gapi_client = ClientWithDrive, scriptsPromise = Some Resolved,
      tokenClient = True, gapiInited = True, gisInited = True,
      gapi_token = Some ''ya29.token'', accessToken = Some ''ya29.token'',
      tokenExpiry = Some 3551000, configFileId = Some ''file-1'', cache = [],
      cache_proto = ObjectPrototype, saveTimeout = None, timers = [], timer_seq = 0,
      drive = [\<lparr>file_id = ''file-1'', file_name = CONFIG_NAME, trashed = False,
                file_content = Some []\<rparr>],
      requests = [FilesList, FilesCreate []], console = [], alerts = []\<rparr>"
  by (simp add: ready_world_def fresh_world_def page_load_def env_ok_def connect_def
      initialize_def loadGoogleScripts_def authenticate_def saveToken_def set_gapi_token_def
      findOrCreateConfigFile_def createConfigFile_def matching_files_def send_def Let_def
      drive_api_def String_of_int_3551000)


subsection \<open>Reading back what was set\<close>

lemma getItem_after_entry:
  assumes "truthy v \<or> v = JNull" and "stores_entry k (cache w) (cache_proto w)"
  shows "fst (getItem e k (snd (setItem k v w))) =
           (if truthy_str (accessToken w) \<or> truthy_id w then Inr (Json v) else Inr (Json JNull))"
    and "fst (getItem e k (elapse e d (snd (setItem k v w)))) =
           (if truthy_str (accessToken w) \<or> truthy_id w then Inr (Json v) else Inr (Json JNull))"
proof -
  have c: "cache (snd (setItem k v w)) = AList.update k v (cache w)"
    "cache_proto (snd (setItem k v w)) = cache_proto w"
    by (simp_all add: setItem_state js_set_entry[OF assms(2)])
  have ne: "AList.update k v (cache w) \<noteq> []"
    by (cases "cache w") simp_all
  have r: "or_null (Some (Json v)) = Json v"
    using assms(1) by (auto simp: or_null_def)
  show "fst (getItem e k (snd (setItem k v w))) =
           (if truthy_str (accessToken w) \<or> truthy_id w then Inr (Json v) else Inr (Json JNull))"
    by (subst getItem_cached) (simp_all add: c ne js_get_own r setItem_state(3,4) truthy_id_def)
  show "fst (getItem e k (elapse e d (snd (setItem k v w)))) =
           (if truthy_str (accessToken w) \<or> truthy_id w then Inr (Json v) else Inr (Json JNull))"
    by (subst getItem_cached)
       (simp_all add: elapse_keeps c ne js_get_own r setItem_state(3,4) truthy_id_def)
qed

lemma getItem_after_prototype:
  assumes "\<not> stores_entry k (cache w) (cache_proto w)" and "is_object v"
    and "own_member v k = None" and "cache w \<noteq> [] \<or> \<not> truthy_id w"
  shows "fst (getItem e k (snd (setItem k v w))) =
           (if truthy_str (accessToken w) \<or> truthy_id w then Inr (Json v) else Inr (Json JNull))"
    and "fst (getItem e k (elapse e d (snd (setItem k v w)))) =
           (if truthy_str (accessToken w) \<or> truthy_id w then Inr (Json v) else Inr (Json JNull))"
proof -
  have k: "k = ''__proto__''" "map_of (cache w) k = None"
    using assms(1) by (simp_all add: stores_entry_def)
  have c: "cache (snd (setItem k v w)) = cache w"
    using assms(1) by (cases v) (simp_all add: setItem_state js_set_def)
  have p: "or_null (js_get (cache w) (cache_proto (snd (setItem k v w))) k) = Json v"
    using assms(1,2,3) k
    by (cases v)
       (simp_all add: setItem_state js_set_def js_get_def inherited_def or_null_def
          array_prototype_names_def)
  have t: "truthy_id (snd (setItem k v w)) = truthy_id w"
    "truthy_id (elapse e d (snd (setItem k v w))) = truthy_id w"
    by (simp_all add: truthy_id_def elapse_keeps setItem_state)
  show "fst (getItem e k (snd (setItem k v w))) =
           (if truthy_str (accessToken w) \<or> truthy_id w then Inr (Json v) else Inr (Json JNull))"
    using assms(4) by (subst getItem_cached) (simp_all add: c p t setItem_state(3,4))
  show "fst (getItem e k (elapse e d (snd (setItem k v w)))) =
           (if truthy_str (accessToken w) \<or> truthy_id w then Inr (Json v) else Inr (Json JNull))"
    using assms(4) by (subst getItem_cached) (simp_all add: elapse_keeps c p t setItem_state(3,4))
qed

text \<open>
  C1 (as amended). Let \<open>v\<close> be any JSON value other than \<open>false\<close>, \<open>0\<close> and
  the empty string. When the assignment of \<open>setItem(k, v)\<close> stores an entry (the key
  is not \<open>__proto__\<close>, or the cache has an own entry of that name, or the setter of
  \<open>__proto__\<close> is out of its reach), \<open>getItem(k)\<close> then returns \<open>v\<close>, at
  once and after any time has passed and the pending flush has run, whatever the flush
  met, provided the adapter holds a token or a file id; with neither, \<open>getItem\<close>
  returns \<open>null\<close> (the guard of line 301). When the assignment goes to the setter
  of \<open>__proto__\<close> instead, the same holds if \<open>v\<close> is an object or an array
  without an own member \<open>__proto__\<close>, or \<open>null\<close>, and \<open>getItem\<close> does
  not load the document again (the cache has an entry, or there is no file id). Between
  the two calls only time passes: no answer to a load arrives.
\<close>

theorem getItem_after_setItem:
  assumes "truthy v \<or> v = JNull"
  shows "(stores_entry k (cache w) (cache_proto w) \<longrightarrow>
            fst (getItem e k (snd (setItem k v w))) =
              (if truthy_str (accessToken w) \<or> truthy_id w then Inr (Json v) else Inr (Json JNull)) \<and>
            fst (getItem e k (elapse e d (snd (setItem k v w)))) =
              (if truthy_str (accessToken w) \<or> truthy_id w then Inr (Json v) else Inr (Json JNull))) \<and>
         (\<not> stores_entry k (cache w) (cache_proto w) \<and> is_object v \<and> own_member v k = None \<and>
          (cache w \<noteq> [] \<or> \<not> truthy_id w) \<longrightarrow>
            fst (getItem e k (snd (setItem k v w))) =
              (if truthy_str (accessToken w) \<or> truthy_id w then Inr (Json v) else Inr (Json JNull)) \<and>
            fst (getItem e k (elapse e d (snd (setItem k v w)))) =
              (if truthy_str (accessToken w) \<or> truthy_id w then Inr (Json v) else Inr (Json JNull)))"
  using getItem_after_entry(1)[OF assms, where k = k and w = w and e = e]
    getItem_after_entry(2)[OF assms, where k = k and w = w and e = e and d = d]
    getItem_after_prototype(1)[where k = k and w = w and v = v and e = e]
    getItem_after_prototype(2)[where k = k and w = w and v = v and e = e and d = d]
  by blast

lemma settings_set:
  "snd (setItem ''focusnook-settings'' (JObj [(''showClock'', JBool True)]) ready_world) =
     ready_world\<lparr>cache := [(''focusnook-settings'', JObj [(''showClock'', JBool True)])],
                 saveTimeout := Some 1, timers := [(1, 3000)], timer_seq := 1\<rparr>"
  by (simp add: setItem_def js_set_def stores_entry_def setTimeout_def ready_world_eq)

theorem getItem_after_setItem_witness:
  "(truthy (JObj [(''showClock'', JBool True)]) \<or> JObj [(''showClock'', JBool True)] = JNull) \<and>
   stores_entry ''focusnook-settings'' (cache ready_world) (cache_proto ready_world) \<and>
   fst (getItem env_offline ''focusnook-settings''
          (elapse env_offline 2000
             (snd (setItem ''focusnook-settings'' (JObj [(''showClock'', JBool True)]) ready_world)))) =
     Inr (Json (JObj [(''showClock'', JBool True)])) \<and>
   fst (getItem env_ok ''k'' (snd (setItem ''k'' JNull ready_world))) = Inr (Json JNull) \<and>
   \<not> stores_entry ''__proto__''
       (cache (snd (setItem ''focusnook-settings'' (JObj [(''showClock'', JBool True)]) ready_world)))
       (cache_proto (snd (setItem ''focusnook-settings'' (JObj [(''showClock'', JBool True)]) ready_world))) \<and>
   is_object (JArr [JNum 1]) \<and> own_member (JArr [JNum 1]) ''__proto__'' = None \<and>
   fst (getItem env_ok ''__proto__''
          (snd (setItem ''__proto__'' (JArr [JNum 1])
             (snd (setItem ''focusnook-settings'' (JObj [(''showClock'', JBool True)]) ready_world))))) =
     Inr (Json (JArr [JNum 1]))"
  using getItem_after_setItem[where v = "JObj [(''showClock'', JBool True)]"
      and k = "''focusnook-settings''" and w = ready_world and e = env_offline and d = 2000]
    getItem_after_setItem[where v = JNull and k = "''k''" and w = ready_world and e = env_ok
      and d = 0]
    getItem_after_setItem[where v = "JArr [JNum 1]" and k = "''__proto__''"
      and w = "snd (setItem ''focusnook-settings'' (JObj [(''showClock'', JBool True)]) ready_world)"
      and e = env_ok and d = 0]
  by (simp add: settings_set stores_entry_def truthy_id_def digits_of.simps digit_char_def)
     (simp add: ready_world_eq)

text \<open>
  The claim as stated fails in the connected state for the values \<open>false\<close>,
  \<open>0\<close> and the empty string, which read back as \<open>null\<close> (line 308,
  \<open>this.cache[key] || null\<close>), and for the key \<open>__proto__\<close> with a string,
  which stores nothing and reads back as \<open>Object.prototype\<close>; before any
  connection a stored number reads back as \<open>null\<close> (line 301); and a number stored
  while a load of the document is awaiting its answer is gone when the answer arrives
  (line 261).
\<close>

theorem getItem_after_setItem_counterexample:
  "fst (getItem env_ok ''k'' (snd (setItem ''k'' (JBool False) ready_world))) = Inr (Json JNull) \<and>
   fst (getItem env_ok ''k'' (snd (setItem ''k'' (JNum 0) ready_world))) = Inr (Json JNull) \<and>
   fst (getItem env_ok ''k'' (snd (setItem ''k'' (JStr []) ready_world))) = Inr (Json JNull) \<and>
   fst (getItem env_ok ''__proto__'' (snd (setItem ''__proto__'' (JStr ''x'') ready_world))) =
     Inr (Native ''Object.prototype'') \<and>
   fst (getItem env_ok ''k'' (snd (setItem ''k'' (JNum 1) fresh_world))) = Inr (Json JNull) \<and>
   fst (getItem env_ok ''k'' (set_during_load env_ok ''file-1'' ''k'' (JNum 1) ready_world)) =
     Inr (Json JNull) \<and>
   Json JNull \<noteq> Json (JBool False) \<and> Json JNull \<noteq> Json (JNum 0) \<and>
   Json JNull \<noteq> Json (JStr []) \<and> Native ''Object.prototype'' \<noteq> Json (JStr ''x'') \<and>
   Json JNull \<noteq> Json (JNum 1)"
  by (simp add: getItem_def setItem_def js_set_def js_get_def inherited_def stores_entry_def
      or_null_def setTimeout_def truthy_id_def loadAllData_def load_response_def find_file_def
      set_during_load_def send_def drive_api_def env_ok_def ready_world_eq fresh_world_def
      page_load_def object_prototype_names_def Let_def)

subsection \<open>Debounce\<close>

lemma timers_owned_page_load: "timers_owned (page_load t ls d)"
  by (simp add: timers_owned_def page_load_def)

lemma owned_filter:
  "timers_owned w \<Longrightarrow> saveTimeout w = Some i \<Longrightarrow> filter (\<lambda>t. fst t \<noteq> i) (timers w) = []"
  by (auto simp: timers_owned_def list_all_iff filter_empty_conv)

lemma owned_no_handle:
  "timers_owned w \<Longrightarrow> saveTimeout w = None \<or> saveTimeout w = Some 0 \<Longrightarrow> timers w = []"
  by (cases "timers w") (auto simp: timers_owned_def)

lemma setItem_schedules:
  assumes "timers_owned w"
  shows "snd (setItem k v w) =
           w\<lparr>cache := fst (js_set k v (cache w) (cache_proto w)),
             cache_proto := snd (js_set k v (cache w) (cache_proto w)),
             timers := [(Suc (timer_seq w), now w + 2000)],
             timer_seq := Suc (timer_seq w),
             saveTimeout := Some (Suc (timer_seq w))\<rparr>"
proof (cases "saveTimeout w")
  case None
  with assms have "timers w = []" by (simp add: owned_no_handle)
  with None show ?thesis by (simp add: setItem_def setTimeout_def)
next
  case (Some i)
  show ?thesis
  proof (cases "i = 0")
    case True
    with Some assms have "timers w = []" by (simp add: owned_no_handle)
    with Some True show ?thesis by (simp add: setItem_def setTimeout_def)
  next
    case False
    with Some assms show ?thesis
      by (simp add: setItem_def setTimeout_def clearTimeout_def owned_filter)
  qed
qed


lemma timers_owned_setItem: "timers_owned w \<Longrightarrow> timers_owned (snd (setItem k v w))"
  by (simp add: setItem_schedules) (simp add: timers_owned_def)

lemma timers_owned_elapse: "timers_owned w \<Longrightarrow> timers_owned (elapse e d w)"
  by (simp add: timers_owned_def elapse_def Let_def fire_keeps list_all_iff)


lemma elapse_fires_one:
  "timers w = [t] \<Longrightarrow> snd t \<le> now w + d \<Longrightarrow>
   elapse e d w = snd (saveAllData e (w\<lparr>now := now w + d, timers := []\<rparr>))"
  by (simp add: elapse_def Let_def)






subsection \<open>Scripts, file resolution and session by cases\<close>

lemma loadGoogleScripts_frame:
  "localStorage (snd (loadGoogleScripts e w)) = localStorage w"
  "now (snd (loadGoogleScripts e w)) = now w"
  "accessToken (snd (loadGoogleScripts e w)) = accessToken w"
  "tokenExpiry (snd (loadGoogleScripts e w)) = tokenExpiry w"
  "requests (snd (loadGoogleScripts e w)) = requests w"
  "configFileId (snd (loadGoogleScripts e w)) = configFileId w"
  "alerts (snd (loadGoogleScripts e w)) = alerts w"
  by (simp_all add: loadGoogleScripts_def split: option.split)

lemma initialize_cases:
  obtains (ok) w1 where "initialize e w = (Inr (), w1)" "w1 = snd (loadGoogleScripts e w)"
  | (failed) err w1 where "initialize e w = (Inl err, w1)" "w1 = snd (loadGoogleScripts e w)"
  by (cases "loadGoogleScripts e w"; cases "fst (loadGoogleScripts e w)")
     (auto simp: initialize_def)

lemma initialize_frame:
  "localStorage (snd (initialize e w)) = localStorage w"
  "now (snd (initialize e w)) = now w"
  "accessToken (snd (initialize e w)) = accessToken w"
  "tokenExpiry (snd (initialize e w)) = tokenExpiry w"
  "requests (snd (initialize e w)) = requests w"
  "configFileId (snd (initialize e w)) = configFileId w"
  "alerts (snd (initialize e w)) = alerts w"
  by (cases rule: initialize_cases[of e w]; simp add: loadGoogleScripts_frame)+

lemma initialize_again:
  "fst (initialize e (snd (initialize e w))) = fst (initialize e w)"
  "snd (initialize e (snd (initialize e w))) = snd (initialize e w)"
  by (simp_all add: initialize_def loadGoogleScripts_def split: option.split promise.split)

lemma loadGoogleScripts_loads:
  assumes "script_load e = None" and "scriptsPromise w = None" and "\<not> libs_present w"
  shows "drive_api (snd (loadGoogleScripts e w))"
  using assms by (simp add: loadGoogleScripts_def drive_api_def)

lemma initialize_api:
  assumes "script_load e = None" and "scriptsPromise w = None" and "\<not> libs_present w"
  shows "drive_api (snd (initialize e w))"
  using loadGoogleScripts_loads[OF assms]
  by (cases rule: initialize_cases[where e = e and w = w]) simp_all

lemma initialize_fresh_api:
  "script_load e = None \<Longrightarrow> drive_api (snd (initialize e (page_load t ls d)))"
  by (rule initialize_api) (simp_all add: page_load_def)

lemma load_response_returns: "fst (load_response e i w) = Inr ()"
  by (simp add: load_response_def split: option.split)

lemma loadAllData_returns: "fst (loadAllData e w) = Inr ()"
  by (simp add: loadAllData_def load_response_returns split: option.split)

lemma loadAllData_frame:
  "localStorage (snd (loadAllData e w)) = localStorage w"
  "accessToken (snd (loadAllData e w)) = accessToken w"
  "tokenExpiry (snd (loadAllData e w)) = tokenExpiry w"
  "configFileId (snd (loadAllData e w)) = configFileId w"
  "drive (snd (loadAllData e w)) = drive w"
  "creates (snd (loadAllData e w)) = creates w"
  by (simp_all add: loadAllData_def load_response_def load_failed_def send_def console_log_def
      creates_def split: option.split)

lemma createConfigFile_frame:
  "localStorage (snd (createConfigFile e w)) = localStorage w"
  "accessToken (snd (createConfigFile e w)) = accessToken w"
  "tokenExpiry (snd (createConfigFile e w)) = tokenExpiry w"
  by (simp_all add: createConfigFile_def Let_def send_def console_log_def split: http.split)

lemma loadAllData_eq: "loadAllData e w = (Inr (), snd (loadAllData e w))"
  by (rule prod_eqI) (simp_all add: loadAllData_returns)

lemma findOrCreateConfigFile_no_api:
  "\<not> drive_api w \<Longrightarrow>
   findOrCreateConfigFile e w =
     (Inl no_drive_api, console_log ERROR ''Error finding config file:'' w)"
  by (simp add: findOrCreateConfigFile_def)

lemma findOrCreateConfigFile_list_fault:
  "drive_api w \<Longrightarrow> list_fault e = Some err \<Longrightarrow>
   findOrCreateConfigFile e w =
     (Inl err, console_log ERROR ''Error finding config file:'' (send FilesList w))"
  by (simp add: findOrCreateConfigFile_def)

lemma findOrCreateConfigFile_found:
  assumes "drive_api w" and "list_fault e = None" and "matching_files (drive w) = f # fs"
  shows "findOrCreateConfigFile e w =
     (Inr (), snd (loadAllData e ((send FilesList w)\<lparr>configFileId := Some (file_id f)\<rparr>)))"
proof -
  have d: "drive (send FilesList w) = drive w" by (simp add: send_def)
  show ?thesis
    unfolding findOrCreateConfigFile_def Let_def
    by (subst loadAllData_eq) (simp add: assms d)
qed

lemma findOrCreateConfigFile_absent:
  assumes "drive_api w" and "list_fault e = None" and "matching_files (drive w) = []"
  shows "findOrCreateConfigFile e w =
     (case create_outcome e of
        NetFail err \<Rightarrow>
          (Inl err, console_log ERROR ''Error finding config file:''
                      (console_log ERROR ''Error creating file:''
                         (send (FilesCreate []) (send FilesList w))))
      | HttpFail st \<Rightarrow>
          (Inr (),
           (send (FilesCreate []) (send FilesList w))
             \<lparr>configFileId := None, cache := [], cache_proto := ObjectPrototype\<rparr>)
      | HttpOk \<Rightarrow>
          (Inr (),
           (send (FilesCreate []) (send FilesList w))
             \<lparr>drive := drive w @
                  [\<lparr>file_id = new_file_id e, file_name = CONFIG_NAME, trashed = False,
                    file_content = Some []\<rparr>],
              configFileId := Some (new_file_id e), cache := [],
              cache_proto := ObjectPrototype\<rparr>))"
proof -
  have d: "drive (send c w) = drive w" for c w by (simp add: send_def)
  show ?thesis
    unfolding findOrCreateConfigFile_def Let_def
    by (simp add: assms d createConfigFile_def Let_def split: http.split)
qed

lemma findOrCreateConfigFile_cases:
  obtains (no_api) "\<not> drive_api w"
  | (fault) err where "drive_api w" "list_fault e = Some err"
  | (found) f fs where "drive_api w" "list_fault e = None" "matching_files (drive w) = f # fs"
  | (absent) "drive_api w" "list_fault e = None" "matching_files (drive w) = []"
  by (cases "drive_api w"; cases "list_fault e"; cases "matching_files (drive w)") auto

lemma findOrCreateConfigFile_keeps:
  "localStorage (snd (findOrCreateConfigFile e w)) = localStorage w \<and>
   accessToken (snd (findOrCreateConfigFile e w)) = accessToken w \<and>
   tokenExpiry (snd (findOrCreateConfigFile e w)) = tokenExpiry w"
proof (cases rule: findOrCreateConfigFile_cases[where e = e and w = w])
  case no_api
  then show ?thesis
    by (simp add: findOrCreateConfigFile_no_api console_log_def)
next
  case fault
  then show ?thesis
    by (simp add: findOrCreateConfigFile_list_fault console_log_def send_def)
next
  case found
  then show ?thesis
    by (simp add: findOrCreateConfigFile_found loadAllData_frame send_def)
next
  case absent
  then show ?thesis
    by (simp add: findOrCreateConfigFile_absent console_log_def send_def split: http.split)
qed

lemma restoreSession_scripts_failed:
  "initialize e w = (Inl err, w1) \<Longrightarrow>
   restoreSession e w =
     (Inr False, alert (''Google Scripts Failed to Load: '' @ message_text err) w1)"
  unfolding restoreSession_def by (simp only: prod.case sum.case)

lemma restoreSession_invalid:
  assumes "initialize e w = (Inr (), w1)" and "\<not> stored_token_valid w"
  shows "restoreSession e w =
     (Inr False,
      if truthy_str (localStorage w TOKEN_KEY)
      then alert ''Session expired or invalid. Please login again.''
             (console_log LOG ''[Drive Debug] No valid token found in storage.''
                (console_log LOG ''[Drive Debug] restoring session...'' w1))
      else console_log LOG ''[Drive Debug] No valid token found in storage.''
             (console_log LOG ''[Drive Debug] restoring session...'' w1))"
proof -
  have w1: "localStorage w1 = localStorage w" "now w1 = now w"
    using initialize_frame(1,2)[of e w] assms(1) by simp_all
  have "\<not> stored_token_valid (console_log LOG ''[Drive Debug] restoring session...'' w1)"
    using assms(2) w1 by (simp add: stored_token_valid_def stored_expiry_def console_log_def)
  moreover have "localStorage (console_log LOG s w') = localStorage w'" for s w'
    by (simp add: console_log_def)
  ultimately show ?thesis
    unfolding restoreSession_def assms(1) prod.case sum.case Let_def
    by (simp only: if_False w1)
qed

lemma restoreSession_valid:
  assumes "initialize e w = (Inr (), w1)" and "stored_token_valid w"
  shows "restoreSession e w =
     (case findOrCreateConfigFile e (restoring w1) of
        (Inr u, w4) \<Rightarrow>
          (Inr True, console_log LOG ''[Drive Debug] Session restored successfully'' w4)
      | (Inl err, w4) \<Rightarrow>
          (Inr False,
           clearToken
             (alert (''Session Restore API Error: '' @ message_or_json err)
                (console_log WARN
                   ''[Drive Debug] Cached token invalid or expired on usage:'' w4))))"
proof -
  have w1: "localStorage w1 = localStorage w" "now w1 = now w"
    using initialize_frame(1,2)[of e w] assms(1) by simp_all
  have v: "stored_token_valid (console_log LOG ''[Drive Debug] restoring session...'' w1)"
    using assms(2) w1 by (simp add: stored_token_valid_def stored_expiry_def console_log_def)
  have l: "localStorage (console_log LOG s w1) = localStorage w1"
    "stored_expiry (console_log LOG s w1) = stored_expiry w1" for s
    by (simp_all add: console_log_def stored_expiry_def)
  show ?thesis
    unfolding restoreSession_def assms(1) prod.case sum.case Let_def restoring_def
    using v by (simp only: if_True l)
qed


lemma restoring_api: "drive_api (restoring w) = drive_api w"
  by (simp add: restoring_def restore_gapi_token_def console_log_def drive_api_def)

subsection \<open>Restoring a session\<close>

lemma Number_str_4999: "Number_str ''4999'' = Some 4999"
  by (simp add: Number_str_def digit_val_def)

lemma Number_str_5001: "Number_str ''5001'' = Some 5001"
  by (simp add: Number_str_def digit_val_def)

lemma restoreSession_returns_bool:
  "fst (restoreSession e w) = Inr True \<or> fst (restoreSession e w) = Inr False"
proof (cases rule: initialize_cases[where e = e and w = w])
  case (failed err w1)
  then show ?thesis by (simp add: restoreSession_scripts_failed)
next
  case (ok w1)
  show ?thesis
  proof (cases "stored_token_valid w")
    case True
    show ?thesis
      by (cases "findOrCreateConfigFile e (restoring w1)"; cases "fst (findOrCreateConfigFile e (restoring w1))")
         (simp_all add: restoreSession_valid[OF ok(1) True])
  next
    case False
    show ?thesis by (simp add: restoreSession_invalid[OF ok(1) False])
  qed
qed

lemma restoreSession_not_valid:
  assumes "fst (initialize e w) \<noteq> Inr () \<or> \<not> stored_token_valid w"
  shows "fst (restoreSession e w) = Inr False \<and>
         localStorage (snd (restoreSession e w)) = localStorage w \<and>
         accessToken (snd (restoreSession e w)) = accessToken w \<and>
         tokenExpiry (snd (restoreSession e w)) = tokenExpiry w \<and>
         requests (snd (restoreSession e w)) = requests w \<and>
         configFileId (snd (restoreSession e w)) = configFileId w"
proof (cases rule: initialize_cases[where e = e and w = w])
  case (failed err w1)
  then show ?thesis
    using initialize_frame[of e w]
    by (simp add: restoreSession_scripts_failed alert_def)
next
  case (ok w1)
  with assms have inv: "\<not> stored_token_valid w" by simp
  show ?thesis
    using initialize_frame[of e w] ok
    by (simp add: restoreSession_invalid[OF ok(1) inv] alert_def console_log_def)
qed

lemma restoreSession_api_failed:
  assumes "fst (initialize e w) = Inr ()" and "stored_token_valid w"
    and "fst (findOrCreateConfigFile e (restoring (snd (initialize e w)))) \<noteq> Inr ()"
  shows "fst (restoreSession e w) = Inr False \<and> token_cleared (snd (restoreSession e w))"
proof -
  have i: "initialize e w = (Inr (), snd (initialize e w))"
    using assms(1) by (simp add: prod_eq_iff)
  obtain err w4 where f: "findOrCreateConfigFile e (restoring (snd (initialize e w))) = (Inl err, w4)"
    using assms(3)
    by (cases "findOrCreateConfigFile e (restoring (snd (initialize e w)))";
        cases "fst (findOrCreateConfigFile e (restoring (snd (initialize e w))))") auto
  show ?thesis
    by (simp add: restoreSession_valid[OF i assms(2)] f token_cleared_def clearToken_def)
qed


text \<open>
  C3 (as amended). \<open>restoreSession\<close> never throws: it returns \<open>true\<close> or
  \<open>false\<close>. When the scripts have loaded, the stored token passes the test of line
  162 and the call of \<open>findOrCreateConfigFile\<close> made with it fails, it returns
  \<open>false\<close> and has cleared the token from memory and from local storage. When the
  scripts fail to load, or the stored token is missing or expired, it returns \<open>false\<close>
  and leaves the token in memory and local storage as they were.
\<close>

theorem restoreSession_failure:
  "(fst (restoreSession e w) = Inr True \<or> fst (restoreSession e w) = Inr False) \<and>
   (fst (initialize e w) = Inr () \<and> stored_token_valid w \<and>
    fst (findOrCreateConfigFile e (restoring (snd (initialize e w)))) \<noteq> Inr () \<longrightarrow>
      fst (restoreSession e w) = Inr False \<and> token_cleared (snd (restoreSession e w))) \<and>
   (fst (initialize e w) \<noteq> Inr () \<or> \<not> stored_token_valid w \<longrightarrow>
      fst (restoreSession e w) = Inr False \<and>
      localStorage (snd (restoreSession e w)) = localStorage w \<and>
      accessToken (snd (restoreSession e w)) = accessToken w \<and>
      tokenExpiry (snd (restoreSession e w)) = tokenExpiry w)"
  using restoreSession_returns_bool[of e w] restoreSession_api_failed[of e w]
    restoreSession_not_valid[of e w]
  by blast

lemma stored_valid_expired: "stored_token_valid expired_world = False"
  by (simp add: stored_token_valid_def stored_expiry_def expired_world_def page_load_def
      stored_session_def TOKEN_KEY_def EXPIRY_KEY_def STORAGE_TYPE_KEY_def Number_str_4999 num_gt_def)

lemma stored_valid_valid: "stored_token_valid valid_world = True"
  by (simp add: stored_token_valid_def stored_expiry_def valid_world_def page_load_def
      stored_session_def TOKEN_KEY_def EXPIRY_KEY_def STORAGE_TYPE_KEY_def Number_str_5001 num_gt_def)

lemma initialize_fresh:
  "script_load e = None \<Longrightarrow> fst (initialize e (page_load t ls d)) = Inr ()"
  by (simp add: initialize_def loadGoogleScripts_def page_load_def)

text \<open>
  The claim as stated fails for the expired token: \<open>restoreSession\<close> returns
  \<open>false\<close> and the token and its expiry are still in local storage (lines 185--191
  do not call \<open>clearToken\<close>).
\<close>

theorem restoreSession_failure_counterexample:
  "fst (restoreSession env_ok expired_world) = Inr False \<and>
   localStorage (snd (restoreSession env_ok expired_world)) TOKEN_KEY = Some ''ya29.token'' \<and>
   localStorage (snd (restoreSession env_ok expired_world)) EXPIRY_KEY = Some ''4999'' \<and>
   \<not> token_cleared (snd (restoreSession env_ok expired_world))"
  using restoreSession_not_valid[of env_ok expired_world]
  by (simp add: stored_valid_expired token_cleared_def)
     (simp add: expired_world_def page_load_def stored_session_def TOKEN_KEY_def EXPIRY_KEY_def
        STORAGE_TYPE_KEY_def)

theorem restoreSession_failure_witness:
  "fst (initialize env_list_fails valid_world) = Inr () \<and> stored_token_valid valid_world \<and>
   fst (findOrCreateConfigFile env_list_fails (restoring (snd (initialize env_list_fails valid_world))))
     \<noteq> Inr () \<and>
   fst (restoreSession env_list_fails valid_world) = Inr False \<and>
   token_cleared (snd (restoreSession env_list_fails valid_world)) \<and>
   fst (restoreSession env_ok expired_world) = Inr False \<and>
   localStorage (snd (restoreSession env_ok expired_world)) = localStorage expired_world"
proof -
  have a: "fst (initialize env_list_fails valid_world) = Inr ()"
    by (simp add: valid_world_def initialize_fresh env_list_fails_def env_ok_def)
  have "drive_api (restoring (snd (initialize env_list_fails valid_world)))"
    by (simp add: restoring_api valid_world_def initialize_fresh_api env_list_fails_def env_ok_def)
  then have b: "fst (findOrCreateConfigFile env_list_fails
                  (restoring (snd (initialize env_list_fails valid_world)))) \<noteq> Inr ()"
    by (simp add: findOrCreateConfigFile_list_fault[where err = "Reject ''{status:401}''"]
        env_list_fails_def env_ok_def)
  show ?thesis
    using a b restoreSession_failure[of env_list_fails valid_world]
      restoreSession_failure[of env_ok expired_world]
    by (simp add: stored_valid_valid stored_valid_expired)
qed

lemma findOrCreateConfigFile_succeeds:
  assumes "drive_api w" and "list_fault e = None" and "create_outcome e = HttpOk"
  shows "fst (findOrCreateConfigFile e w) = Inr ()"
proof (cases rule: findOrCreateConfigFile_cases[where e = e and w = w])
  case no_api
  with assms show ?thesis by simp
next
  case fault
  with assms show ?thesis by simp
next
  case found
  then show ?thesis by (simp add: findOrCreateConfigFile_found)
next
  case absent
  with assms show ?thesis by (simp add: findOrCreateConfigFile_absent)
qed

lemma restoreSession_succeeds:
  assumes "fst (initialize e w) = Inr ()" and "stored_token_valid w"
    and "fst (findOrCreateConfigFile e (restoring (snd (initialize e w)))) = Inr ()"
  shows "fst (restoreSession e w) = Inr True"
proof -
  have i: "initialize e w = (Inr (), snd (initialize e w))"
    using assms(1) by (simp add: prod_eq_iff)
  have f: "findOrCreateConfigFile e (restoring (snd (initialize e w))) =
      (Inr (), snd (findOrCreateConfigFile e (restoring (snd (initialize e w)))))"
    using assms(3) by (simp add: prod_eq_iff)
  show ?thesis
    by (subst restoreSession_valid[OF i assms(2)], subst f) simp
qed

lemma expired_not_valid:
  "stored_expiry w = Some x \<Longrightarrow> x \<le> now w \<Longrightarrow> \<not> stored_token_valid w"
  by (simp add: stored_token_valid_def num_gt_def)

lemma restoreSession_True_valid:
  assumes "fst (restoreSession e w) = Inr True"
  shows "stored_token_valid w"
  using assms restoreSession_not_valid[of e w] by auto

lemma init_needs_auth:
  assumes "localStorage w STORAGE_TYPE_KEY = Some ''gdrive''" and "fst (initialize e w) = Inr ()"
    and "\<not> stored_token_valid w"
  shows "init e w s =
     (snd (restoreSession e (snd (initialize e w))),
      s\<lparr>needsDriveAuth := True, isLoading := False\<rparr>, [])"
proof -
  have r: "recover_storage_type w = (Some ''gdrive'', w)"
    using assms(1) by (simp add: recover_storage_type_def)
  have i: "initialize e w = (Inr (), snd (initialize e w))"
    using assms(2) by (simp add: prod_eq_iff)
  have "\<not> stored_token_valid (snd (initialize e w))"
    using assms(3) by (simp add: stored_token_valid_def stored_expiry_def initialize_frame)
  then have "fst (restoreSession e (snd (initialize e w))) = Inr False"
    using restoreSession_not_valid by blast
  then have rs: "restoreSession e (snd (initialize e w)) =
      (Inr False, snd (restoreSession e (snd (initialize e w))))"
    by (simp add: prod_eq_iff)
  show ?thesis
    unfolding init_def r prod.case
    by (subst i, simp only: prod.case sum.case, subst rs) simp
qed

text \<open>
  C4. A stored token is used only while \<open>now < expiry\<close>: \<open>restoreSession\<close>
  returns \<open>true\<close> only if the stored expiry is a number greater than the clock. With
  a stored expiry at or before the clock (one millisecond in the past included) it
  returns \<open>false\<close>, sends no request to Drive and resolves no file; \<open>init\<close>, with
  the preference for Drive recorded and the scripts loaded, then asks for interactive
  authentication (\<open>needsDriveAuth\<close>), activates no adapter and loads no data. The
  same boundary holds for \<open>hasValidToken\<close> on the token in memory.
\<close>

theorem expired_token_not_restored:
  "(fst (restoreSession e w) = Inr True \<longrightarrow> (\<exists>x. stored_expiry w = Some x \<and> now w < x)) \<and>
   (stored_expiry w = Some x \<and> x \<le> now w \<longrightarrow>
      fst (restoreSession e w) = Inr False \<and>
      requests (snd (restoreSession e w)) = requests w \<and>
      configFileId (snd (restoreSession e w)) = configFileId w \<and>
      accessToken (snd (restoreSession e w)) = accessToken w) \<and>
   (stored_expiry w = Some x \<and> x \<le> now w \<and>
    localStorage w STORAGE_TYPE_KEY = Some ''gdrive'' \<and> fst (initialize e w) = Inr () \<longrightarrow>
      needsDriveAuth (fst (snd (init e w s))) \<and> \<not> isLoading (fst (snd (init e w s))) \<and>
      snd (snd (init e w s)) = [] \<and>
      requests (fst (init e w s)) = requests w) \<and>
   (tokenExpiry w = Some x \<and> x \<le> now w \<longrightarrow> \<not> hasValidToken w)"
proof (intro conjI impI)
  assume "fst (restoreSession e w) = Inr True"
  then have "stored_token_valid w" by (rule restoreSession_True_valid)
  then show "\<exists>x. stored_expiry w = Some x \<and> now w < x"
    by (cases "stored_expiry w") (simp_all add: stored_token_valid_def num_gt_def)
next
  assume a: "stored_expiry w = Some x \<and> x \<le> now w"
  then have "\<not> stored_token_valid w" by (simp add: expired_not_valid)
  then show "fst (restoreSession e w) = Inr False"
    "requests (snd (restoreSession e w)) = requests w"
    "configFileId (snd (restoreSession e w)) = configFileId w"
    "accessToken (snd (restoreSession e w)) = accessToken w"
    using restoreSession_not_valid[of e w] by simp_all
next
  assume a: "stored_expiry w = Some x \<and> x \<le> now w \<and>
    localStorage w STORAGE_TYPE_KEY = Some ''gdrive'' \<and> fst (initialize e w) = Inr ()"
  then have nv: "\<not> stored_token_valid w" by (simp add: expired_not_valid)
  have nv': "\<not> stored_token_valid (snd (initialize e w))"
    using nv by (simp add: stored_token_valid_def stored_expiry_def initialize_frame)
  have eq: "init e w s =
     (snd (restoreSession e (snd (initialize e w))),
      s\<lparr>needsDriveAuth := True, isLoading := False\<rparr>, [])"
    using a nv by (simp add: init_needs_auth)
  show "needsDriveAuth (fst (snd (init e w s)))" "\<not> isLoading (fst (snd (init e w s)))"
    "snd (snd (init e w s)) = []"
    by (simp_all add: eq)
  show "requests (fst (init e w s)) = requests w"
    using restoreSession_not_valid[of e "snd (initialize e w)"] nv'
    by (simp add: eq initialize_frame)
next
  assume "tokenExpiry w = Some x \<and> x \<le> now w"
  then show "\<not> hasValidToken w" by (simp add: hasValidToken_def)
qed

theorem expired_token_not_restored_witness:
  "stored_expiry expired_world = Some (now expired_world - 1) \<and>
   now expired_world - 1 \<le> now expired_world \<and>
   localStorage expired_world STORAGE_TYPE_KEY = Some ''gdrive'' \<and>
   fst (initialize env_ok expired_world) = Inr () \<and>
   fst (restoreSession env_ok expired_world) = Inr False \<and>
   requests (snd (restoreSession env_ok expired_world)) = [] \<and>
   needsDriveAuth (fst (snd (init env_ok expired_world shell0))) \<and>
   snd (snd (init env_ok expired_world shell0)) = [] \<and>
   fst (restoreSession env_ok valid_world) = Inr True \<and>
   stored_expiry valid_world = Some (now valid_world + 1)"
proof -
  have a: "stored_expiry expired_world = Some (now expired_world - 1)"
    by (simp add: stored_expiry_def expired_world_def page_load_def stored_session_def
        TOKEN_KEY_def EXPIRY_KEY_def STORAGE_TYPE_KEY_def Number_str_4999)
  have b: "localStorage expired_world STORAGE_TYPE_KEY = Some ''gdrive''"
    by (simp add: expired_world_def page_load_def stored_session_def)
  have c: "fst (initialize env_ok expired_world) = Inr ()"
    by (simp add: expired_world_def initialize_fresh env_ok_def)
  have d: "requests expired_world = []"
    by (simp add: expired_world_def page_load_def)
  have e: "stored_expiry valid_world = Some (now valid_world + 1)"
    by (simp add: stored_expiry_def valid_world_def page_load_def stored_session_def
        TOKEN_KEY_def EXPIRY_KEY_def STORAGE_TYPE_KEY_def Number_str_5001)
  have f: "fst (restoreSession env_ok valid_world) = Inr True"
  proof (rule restoreSession_succeeds)
    show "fst (initialize env_ok valid_world) = Inr ()"
      by (simp add: valid_world_def initialize_fresh env_ok_def)
    show "stored_token_valid valid_world"
      by (simp add: stored_valid_valid)
    show "fst (findOrCreateConfigFile env_ok (restoring (snd (initialize env_ok valid_world)))) = Inr ()"
      by (rule findOrCreateConfigFile_succeeds)
         (simp_all add: restoring_api valid_world_def initialize_fresh_api env_ok_def)
  qed
  show ?thesis
    using a b c d e f
      expired_token_not_restored[of env_ok expired_world "now expired_world - 1" shell0]
    by simp
qed

subsection \<open>Failures of reading and writing\<close>













subsection \<open>Resolving the configuration file\<close>

lemma creates_send:
  "creates (send FilesList w) = creates w"
  "creates (send (FilesGet i) w) = creates w"
  "creates (send (FilesCreate d) w) = creates w @ [FilesCreate d]"
  "creates (console_log l s w) = creates w"
  by (simp_all add: creates_def send_def console_log_def)

lemma connecting_state:
  assumes "script_load e = None" and "auth_response e = Inr token"
  shows "drive_api (connecting e (page_load t ls d))"
    and "drive (connecting e (page_load t ls d)) = d"
    and "requests (connecting e (page_load t ls d)) = []"
    and "console (connecting e (page_load t ls d)) = []"
    and "accessToken (connecting e (page_load t ls d)) = Some token"
  using assms
  by (simp_all add: connecting_def initialize_def loadGoogleScripts_def authenticate_def
      saveToken_def set_gapi_token_def page_load_def drive_api_def)

lemma connect_resolves:
  assumes "script_load e = None" and "auth_response e = Inr token"
  shows "fst (connect e (page_load t ls d)) =
           map_sum id (\<lambda>u. True) (fst (findOrCreateConfigFile e (connecting e (page_load t ls d))))"
proof -
  obtain r w3 where f: "findOrCreateConfigFile e (connecting e (page_load t ls d)) = (r, w3)"
    by (cases "findOrCreateConfigFile e (connecting e (page_load t ls d))")
  have i: "initialize e (page_load t ls d) = (Inr (), snd (initialize e (page_load t ls d)))"
    using assms(1) by (simp add: initialize_def loadGoogleScripts_def page_load_def)
  have g: "gisInited (snd (initialize e (page_load t ls d)))"
    "gapiInited (snd (initialize e (page_load t ls d)))"
    using assms(1) by (simp_all add: initialize_def loadGoogleScripts_def page_load_def)
  have a: "authenticate e (snd (initialize e (page_load t ls d))) =
      (Inr token, connecting e (page_load t ls d))"
    using assms
    by (simp add: connecting_def authenticate_def initialize_def loadGoogleScripts_def
        page_load_def)
  show ?thesis
    unfolding connect_def
    by (subst i, simp only: prod.case sum.case g, subst a, simp only: prod.case sum.case f)
       (cases r; simp)
qed

text \<open>
  C6 (as amended). With the Drive API loaded, as it is once the module has loaded the
  scripts, which \<open>connect\<close> requires: when the list call succeeds and no file
  matches, exactly one create request is sent, with the empty object as content; when
  that request succeeds, the Drive has exactly one file more, named
  \<open>focusnook-data.json\<close> with content \<open>{}\<close>, its id is the file id and the
  cache is empty. A list call that rejects and a create request that rejects are logged
  with \<open>console.error\<close> and thrown to the caller, and no file is created. When
  files match, the first one of the answer is the file, nothing is created and nothing
  is thrown. Without the Drive API the function sends nothing, logs the
  \<open>TypeError\<close> and throws it.
\<close>

theorem findOrCreateConfigFile_resolves:
  "(drive_api w \<and> list_fault e = Some err \<longrightarrow>
      fst (findOrCreateConfigFile e w) = Inl err \<and>
      console (snd (findOrCreateConfigFile e w)) =
        console w @ [(ERROR, ''Error finding config file:'')] \<and>
      drive (snd (findOrCreateConfigFile e w)) = drive w \<and>
      creates (snd (findOrCreateConfigFile e w)) = creates w) \<and>
   (drive_api w \<and> list_fault e = None \<and> matching_files (drive w) = [] \<longrightarrow>
      creates (snd (findOrCreateConfigFile e w)) = creates w @ [FilesCreate []]) \<and>
   (drive_api w \<and> list_fault e = None \<and> matching_files (drive w) = [] \<and>
    create_outcome e = HttpOk \<longrightarrow>
      fst (findOrCreateConfigFile e w) = Inr () \<and>
      drive (snd (findOrCreateConfigFile e w)) =
        drive w @ [\<lparr>file_id = new_file_id e, file_name = CONFIG_NAME, trashed = False,
                    file_content = Some []\<rparr>] \<and>
      configFileId (snd (findOrCreateConfigFile e w)) = Some (new_file_id e) \<and>
      cache (snd (findOrCreateConfigFile e w)) = [] \<and>
      console (snd (findOrCreateConfigFile e w)) = console w) \<and>
   (drive_api w \<and> list_fault e = None \<and> matching_files (drive w) = [] \<and>
    create_outcome e = NetFail err \<longrightarrow>
      fst (findOrCreateConfigFile e w) = Inl err \<and>
      console (snd (findOrCreateConfigFile e w)) =
        console w @ [(ERROR, ''Error creating file:''), (ERROR, ''Error finding config file:'')] \<and>
      drive (snd (findOrCreateConfigFile e w)) = drive w) \<and>
   (drive_api w \<and> list_fault e = None \<and> matching_files (drive w) = f # fs \<longrightarrow>
      fst (findOrCreateConfigFile e w) = Inr () \<and>
      configFileId (snd (findOrCreateConfigFile e w)) = Some (file_id f) \<and>
      drive (snd (findOrCreateConfigFile e w)) = drive w \<and>
      creates (snd (findOrCreateConfigFile e w)) = creates w) \<and>
   (\<not> drive_api w \<longrightarrow>
      fst (findOrCreateConfigFile e w) = Inl no_drive_api \<and>
      console (snd (findOrCreateConfigFile e w)) =
        console w @ [(ERROR, ''Error finding config file:'')] \<and>
      requests (snd (findOrCreateConfigFile e w)) = requests w \<and>
      drive (snd (findOrCreateConfigFile e w)) = drive w)"
proof (intro conjI impI)
  assume "drive_api w \<and> list_fault e = Some err"
  then show "fst (findOrCreateConfigFile e w) = Inl err"
    "console (snd (findOrCreateConfigFile e w)) =
        console w @ [(ERROR, ''Error finding config file:'')]"
    "drive (snd (findOrCreateConfigFile e w)) = drive w"
    "creates (snd (findOrCreateConfigFile e w)) = creates w"
    by (simp_all add: findOrCreateConfigFile_list_fault creates_send)
       (simp_all add: console_log_def send_def)
next
  assume "drive_api w \<and> list_fault e = None \<and> matching_files (drive w) = []"
  then show "creates (snd (findOrCreateConfigFile e w)) = creates w @ [FilesCreate []]"
    by (simp add: findOrCreateConfigFile_absent creates_def send_def console_log_def
        split: http.split)
next
  assume a: "drive_api w \<and> list_fault e = None \<and> matching_files (drive w) = [] \<and>
    create_outcome e = HttpOk"
  then show "fst (findOrCreateConfigFile e w) = Inr ()"
    "drive (snd (findOrCreateConfigFile e w)) =
        drive w @ [\<lparr>file_id = new_file_id e, file_name = CONFIG_NAME, trashed = False,
                    file_content = Some []\<rparr>]"
    "configFileId (snd (findOrCreateConfigFile e w)) = Some (new_file_id e)"
    "cache (snd (findOrCreateConfigFile e w)) = []"
    "console (snd (findOrCreateConfigFile e w)) = console w"
    by (simp_all add: findOrCreateConfigFile_absent send_def)
next
  assume "drive_api w \<and> list_fault e = None \<and> matching_files (drive w) = [] \<and>
    create_outcome e = NetFail err"
  then show "fst (findOrCreateConfigFile e w) = Inl err"
    "console (snd (findOrCreateConfigFile e w)) =
        console w @ [(ERROR, ''Error creating file:''), (ERROR, ''Error finding config file:'')]"
    "drive (snd (findOrCreateConfigFile e w)) = drive w"
    by (simp_all add: findOrCreateConfigFile_absent console_log_def send_def)
next
  assume a: "drive_api w \<and> list_fault e = None \<and> matching_files (drive w) = f # fs"
  then have eq: "findOrCreateConfigFile e w =
     (Inr (), snd (loadAllData e ((send FilesList w)\<lparr>configFileId := Some (file_id f)\<rparr>)))"
    by (simp add: findOrCreateConfigFile_found)
  show "fst (findOrCreateConfigFile e w) = Inr ()"
    "configFileId (snd (findOrCreateConfigFile e w)) = Some (file_id f)"
    "drive (snd (findOrCreateConfigFile e w)) = drive w"
    "creates (snd (findOrCreateConfigFile e w)) = creates w"
    by (simp_all add: eq loadAllData_frame) (simp_all add: send_def creates_def)
next
  assume "\<not> drive_api w"
  then show "fst (findOrCreateConfigFile e w) = Inl no_drive_api"
    "console (snd (findOrCreateConfigFile e w)) =
        console w @ [(ERROR, ''Error finding config file:'')]"
    "requests (snd (findOrCreateConfigFile e w)) = requests w"
    "drive (snd (findOrCreateConfigFile e w)) = drive w"
    by (simp_all add: findOrCreateConfigFile_no_api console_log_def)
qed

text \<open>
  The claim as stated says it never throws. In the state in which \<open>connect\<close> calls
  it (scripts loaded, consent given, no matching file), a rejected list call and a
  rejected create request are both thrown again (lines 212--215 and 246--249), through
  \<open>connect\<close> to its caller, and the Drive has no new file.
\<close>

theorem findOrCreateConfigFile_resolves_counterexample:
  "drive_api (connecting env_list_fails fresh_world) \<and>
   matching_files (drive (connecting env_list_fails fresh_world)) = [] \<and>
   fst (findOrCreateConfigFile env_list_fails (connecting env_list_fails fresh_world)) =
     Inl (Reject ''{status:401}'') \<and>
   fst (connect env_list_fails fresh_world) = Inl (Reject ''{status:401}'') \<and>
   drive_api (connecting env_create_fails fresh_world) \<and>
   matching_files (drive (connecting env_create_fails fresh_world)) = [] \<and>
   fst (findOrCreateConfigFile env_create_fails (connecting env_create_fails fresh_world)) =
     Inl (Error ''Failed to fetch'') \<and>
   fst (connect env_create_fails fresh_world) = Inl (Error ''Failed to fetch'') \<and>
   drive (snd (findOrCreateConfigFile env_create_fails (connecting env_create_fails fresh_world))) = []"
proof -
  have e: "script_load env_list_fails = None" "auth_response env_list_fails = Inr ''ya29.token''"
    "list_fault env_list_fails = Some (Reject ''{status:401}'')"
    "script_load env_create_fails = None" "auth_response env_create_fails = Inr ''ya29.token''"
    "list_fault env_create_fails = None"
    "create_outcome env_create_fails = NetFail (Error ''Failed to fetch'')"
    by (simp_all add: env_list_fails_def env_create_fails_def env_ok_def)
  note c1 = connecting_state[OF e(1,2), of 1000 Map.empty "[]"]
  note c2 = connecting_state[OF e(4,5), of 1000 Map.empty "[]"]
  have m: "matching_files [] = []"
    by (simp add: matching_files_def)
  have f1: "fst (findOrCreateConfigFile env_list_fails (connecting env_list_fails fresh_world)) =
      Inl (Reject ''{status:401}'')"
    unfolding fresh_world_def
    by (simp add: findOrCreateConfigFile_list_fault[OF c1(1) e(3)])
  have f2: "findOrCreateConfigFile env_create_fails (connecting env_create_fails fresh_world) =
      (Inl (Error ''Failed to fetch''),
       console_log ERROR ''Error finding config file:''
         (console_log ERROR ''Error creating file:''
            (send (FilesCreate []) (send FilesList (connecting env_create_fails fresh_world)))))"
    unfolding fresh_world_def
    by (subst findOrCreateConfigFile_absent[OF c2(1) e(6)]) (simp_all add: c2 m e)
  show ?thesis
    using f1 c1 c2
    by (simp add: f2 fresh_world_def[symmetric] m console_log_def send_def)
       (simp add: fresh_world_def connect_resolves[OF e(1,2)] connect_resolves[OF e(4,5)]
          f1[unfolded fresh_world_def] f2[unfolded fresh_world_def])
qed

theorem findOrCreateConfigFile_resolves_witness:
  "drive_api (connecting env_ok fresh_world) \<and>
   list_fault env_ok = None \<and> create_outcome env_ok = HttpOk \<and>
   matching_files (drive (connecting env_ok fresh_world)) = [] \<and>
   fst (findOrCreateConfigFile env_ok (connecting env_ok fresh_world)) = Inr () \<and>
   creates (snd (findOrCreateConfigFile env_ok (connecting env_ok fresh_world))) = [FilesCreate []] \<and>
   drive (snd (findOrCreateConfigFile env_ok (connecting env_ok fresh_world))) =
     [\<lparr>file_id = ''file-1'', file_name = CONFIG_NAME, trashed = False, file_content = Some []\<rparr>] \<and>
   drive_api ready_world \<and>
   matching_files (drive ready_world) = drive ready_world \<and>
   fst (findOrCreateConfigFile env_ok ready_world) = Inr () \<and>
   configFileId (snd (findOrCreateConfigFile env_ok ready_world)) = Some ''file-1'' \<and>
   drive (snd (findOrCreateConfigFile env_ok ready_world)) = drive ready_world \<and>
   list_fault env_list_fails = Some (Reject ''{status:401}'') \<and>
   fst (findOrCreateConfigFile env_list_fails ready_world) = Inl (Reject ''{status:401}'') \<and>
   console (snd (findOrCreateConfigFile env_list_fails ready_world)) =
     [(ERROR, ''Error finding config file:'')] \<and>
   list_fault env_create_fails = None \<and>
   create_outcome env_create_fails = NetFail (Error ''Failed to fetch'') \<and>
   fst (findOrCreateConfigFile env_create_fails (connecting env_ok fresh_world)) =
     Inl (Error ''Failed to fetch'') \<and>
   console (snd (findOrCreateConfigFile env_create_fails (connecting env_ok fresh_world))) =
     [(ERROR, ''Error creating file:''), (ERROR, ''Error finding config file:'')] \<and>
   \<not> drive_api fresh_world \<and>
   fst (findOrCreateConfigFile env_ok fresh_world) = Inl no_drive_api \<and>
   requests (snd (findOrCreateConfigFile env_ok fresh_world)) = []"
proof -
  have a: "list_fault env_ok = None" "create_outcome env_ok = HttpOk" "new_file_id env_ok = ''file-1''"
    "list_fault env_list_fails = Some (Reject ''{status:401}'')"
    "list_fault env_create_fails = None"
    "create_outcome env_create_fails = NetFail (Error ''Failed to fetch'')"
    "script_load env_ok = None" "auth_response env_ok = Inr ''ya29.token''"
    by (simp_all add: env_ok_def env_list_fails_def env_create_fails_def)
  note c = connecting_state[OF a(7,8), of 1000 Map.empty "[]", folded fresh_world_def]
  have b: "matching_files (drive (connecting env_ok fresh_world)) = []"
    "creates (connecting env_ok fresh_world) = []"
    "\<not> drive_api fresh_world" "requests fresh_world = []"
    by (simp_all add: c matching_files_def creates_def)
       (simp_all add: fresh_world_def page_load_def drive_api_def)
  have r: "matching_files (drive ready_world) =
      \<lparr>file_id = ''file-1'', file_name = CONFIG_NAME, trashed = False, file_content = Some []\<rparr> # []"
    "drive ready_world =
      [\<lparr>file_id = ''file-1'', file_name = CONFIG_NAME, trashed = False, file_content = Some []\<rparr>]"
    "drive_api ready_world" "console ready_world = []"
    by (simp_all add: ready_world_eq matching_files_def drive_api_def)
  show ?thesis
    using a b c r
      findOrCreateConfigFile_resolves[of "connecting env_ok fresh_world" env_ok "Error []"
        "\<lparr>file_id = [], file_name = [], trashed = False, file_content = None\<rparr>" "[]"]
      findOrCreateConfigFile_resolves[of ready_world env_ok "Error []"
        "\<lparr>file_id = ''file-1'', file_name = CONFIG_NAME, trashed = False, file_content = Some []\<rparr>" "[]"]
      findOrCreateConfigFile_resolves[of ready_world env_list_fails "Reject ''{status:401}''"
        "\<lparr>file_id = [], file_name = [], trashed = False, file_content = None\<rparr>" "[]"]
      findOrCreateConfigFile_resolves[of "connecting env_ok fresh_world" env_create_fails
        "Error ''Failed to fetch''"
        "\<lparr>file_id = [], file_name = [], trashed = False, file_content = None\<rparr>" "[]"]
      findOrCreateConfigFile_resolves[of fresh_world env_ok "Error []"
        "\<lparr>file_id = [], file_name = [], trashed = False, file_content = None\<rparr>" "[]"]
    by simp
qed

subsection \<open>The shapes of the task list\<close>

lemma tasks_of_flat: "tasks_of (JArr ts) = Inr ts"
  by (simp add: tasks_of_def)

lemma tasks_of_envelope: "tasks_of (envelope ts cursor) = Inr ts"
  by (simp add: tasks_of_def envelope_def)

lemma tasks_of_rest_v2_flat: "tasks_of_rest_v2 (JArr ts) = Inr ts"
  by (simp add: tasks_of_rest_v2_def)

lemma tasks_of_rest_v2_envelope:
  "tasks_of_rest_v2 (envelope ts cursor) = Inl (Error ''TypeError: tasks.map is not a function'')"
  by (simp add: tasks_of_rest_v2_def envelope_def)

lemma task_of_object:
  "task_of (JObj d) =
     Inr \<lparr>t_id = map_of d ''id'', t_text = map_of d ''content'',
          t_completed = coalesce (map_of d ''checked'')
                          (coalesce (map_of d ''is_completed'') (Some (JBool False))),
          t_todoistId = map_of d ''id'', t_projectId = map_of d ''project_id'',
          t_due = map_of d ''due''\<rparr>"
  by (simp add: task_of_def field_def)

text \<open>
  C7 (as amended). When the proxy answers the same tasks once as a flat array and once
  in the envelope \<open>{results, next_cursor}\<close>, \<open>getTasks\<close> of part\_001 returns the
  same list for both: each task mapped to \<open>id\<close>, \<open>text\<close>, \<open>completed\<close>,
  \<open>todoistId\<close>, \<open>projectId\<close> and \<open>due\<close>. \<open>getTasks\<close> of
  src/src/services/todoistApi.js maps the flat array likewise, and throws a
  \<open>TypeError\<close> on the envelope.
\<close>

theorem getTasks_shapes:
  assumes flat: "request ''/tasks'' (tasks_query opt) token = Inr (JArr ts)"
    and env: "request' ''/tasks'' (tasks_query opt) token = Inr (envelope ts cursor)"
  shows "getTasks request token opt = map_throwing task_of ts \<and>
         getTasks request' token opt = map_throwing task_of ts \<and>
         getTasks_rest_v2 request token opt = map_throwing task_of_rest_v2 ts \<and>
         getTasks_rest_v2 request' token opt =
           Inl (Error ''TypeError: tasks.map is not a function'') \<and>
         task_of (JObj d) =
           Inr \<lparr>t_id = map_of d ''id'', t_text = map_of d ''content'',
                t_completed = coalesce (map_of d ''checked'')
                                (coalesce (map_of d ''is_completed'') (Some (JBool False))),
                t_todoistId = map_of d ''id'', t_projectId = map_of d ''project_id'',
                t_due = map_of d ''due''\<rparr>"
  by (simp add: getTasks_def getTasks_rest_v2_def flat env tasks_of_flat tasks_of_envelope
      tasks_of_rest_v2_flat tasks_of_rest_v2_envelope task_of_object)

text \<open>
  The claim as stated fails for the client of src/src/services/todoistApi.js, which
  calls \<open>map\<close> on the response itself (lines 96--97).
\<close>

theorem getTasks_shapes_counterexample:
  "getTasks_rest_v2 flat_proxy ''tok'' None =
     Inr [\<lparr>t_id = Some (JStr ''7''), t_text = Some (JStr ''Write''),
           t_completed = Some (JBool False), t_todoistId = Some (JStr ''7''),
           t_projectId = Some (JStr ''p1''), t_due = Some JNull\<rparr>] \<and>
   getTasks_rest_v2 envelope_proxy ''tok'' None =
     Inl (Error ''TypeError: tasks.map is not a function'')"
  by (simp add: getTasks_rest_v2_def tasks_of_rest_v2_def envelope_def upstream_tasks_def
      task_of_rest_v2_def field_def js_or_def flat_proxy_def envelope_proxy_def)

theorem getTasks_shapes_witness:
  "flat_proxy ''/tasks'' (tasks_query None) ''tok'' = Inr (JArr upstream_tasks) \<and>
   envelope_proxy ''/tasks'' (tasks_query None) ''tok'' = Inr (envelope upstream_tasks JNull) \<and>
   getTasks flat_proxy ''tok'' None =
     Inr [\<lparr>t_id = Some (JStr ''7''), t_text = Some (JStr ''Write''),
           t_completed = Some (JBool False), t_todoistId = Some (JStr ''7''),
           t_projectId = Some (JStr ''p1''), t_due = Some JNull\<rparr>] \<and>
   getTasks envelope_proxy ''tok'' None =
     Inr [\<lparr>t_id = Some (JStr ''7''), t_text = Some (JStr ''Write''),
           t_completed = Some (JBool False), t_todoistId = Some (JStr ''7''),
           t_projectId = Some (JStr ''p1''), t_due = Some JNull\<rparr>]"
  using getTasks_shapes[of flat_proxy None "''tok''" upstream_tasks envelope_proxy JNull "[]"]
  by (simp add: flat_proxy_def envelope_proxy_def)
     (simp add: upstream_tasks_def task_of_def field_def coalesce_def)

subsection \<open>Boot\<close>

lemma restoring_frame:
  "localStorage (restoring w) = localStorage w"
  by (simp add: restoring_def restore_gapi_token_def console_log_def)

lemma restoreSession_keeps_type:
  "localStorage (snd (restoreSession e w)) STORAGE_TYPE_KEY = localStorage w STORAGE_TYPE_KEY"
proof (cases "fst (initialize e w) \<noteq> Inr () \<or> \<not> stored_token_valid w")
  case True
  then show ?thesis using restoreSession_not_valid[of e w] by simp
next
  case False
  then have i: "initialize e w = (Inr (), snd (initialize e w))" and v: "stored_token_valid w"
    by (simp_all add: prod_eq_iff)
  obtain r w4 where f: "findOrCreateConfigFile e (restoring (snd (initialize e w))) = (r, w4)"
    by (cases "findOrCreateConfigFile e (restoring (snd (initialize e w)))")
  have l: "localStorage w4 = localStorage w"
    using findOrCreateConfigFile_keeps[of e "restoring (snd (initialize e w))"]
    by (simp add: f restoring_frame initialize_frame)
  show ?thesis
    by (cases r)
       (simp_all add: restoreSession_valid[OF i v] f l clearToken_def alert_def console_log_def
          TOKEN_KEY_def EXPIRY_KEY_def STORAGE_TYPE_KEY_def)
qed

lemma recover_cases:
  "recover_storage_type w =
     (if \<not> truthy_str (localStorage w STORAGE_TYPE_KEY) \<and> stored_token_valid w
      then (Some ''gdrive'',
            (console_log LOG ''Recovering lost storage type based on existing token'' w)
              \<lparr>localStorage := (localStorage w)(STORAGE_TYPE_KEY \<mapsto> ''gdrive'')\<rparr>)
      else (localStorage w STORAGE_TYPE_KEY, w))"
  by (simp add: recover_storage_type_def Let_def)

lemma init_local:
  assumes "fst (recover_storage_type w) \<noteq> Some ''gdrive''"
  shows "init e w s = (snd (recover_storage_type w), s, [LoadData])"
  using assms by (cases "recover_storage_type w") (simp add: init_def)

lemma init_drive:
  assumes "fst (recover_storage_type w) = Some ''gdrive''"
  shows "init e w s =
     (let w1 = snd (recover_storage_type w) in
      if fst (initialize e w1) \<noteq> Inr () then
        (console_log ERROR ''Failed to init drive scripts, falling back to local''
           (snd (initialize e w1)), s, [SetAdapter LocalStorageAdapter, LoadData])
      else if fst (restoreSession e (snd (initialize e w1))) = Inr True then
        (console_log LOG ''Drive session restored from cache''
           (snd (restoreSession e (snd (initialize e w1)))), s,
         [SetAdapter GoogleDriveAdapter, LoadData])
      else (snd (restoreSession e (snd (initialize e w1))),
            s\<lparr>needsDriveAuth := True, isLoading := False\<rparr>, []))"
proof -
  obtain w1 where r: "recover_storage_type w = (Some ''gdrive'', w1)"
    using assms by (cases "recover_storage_type w") auto
  obtain ri w2 where i: "initialize e w1 = (ri, w2)"
    by (cases "initialize e w1")
  obtain rr w3 where rs: "restoreSession e w2 = (rr, w3)"
    by (cases "restoreSession e w2")
  have b: "rr = Inr True \<or> rr = Inr False"
    using restoreSession_returns_bool[of e w2] by (simp add: rs)
  show ?thesis
  proof (cases ri)
    case (Inl err)
    then show ?thesis
      by (simp add: init_def r i Let_def)
  next
    case (Inr u)
    then show ?thesis
      using b by (auto simp: init_def r i rs Let_def)
  qed
qed

text \<open>
  C8. \<open>init\<close> settles the storage type first. The preference \<open>'gdrive'\<close> is
  inferred and recorded in local storage if and only if no preference is recorded (the
  entry is missing or empty) and a token is stored whose stored expiry is greater than
  the clock; a recorded preference is never changed. The storage type is \<open>'gdrive'\<close>
  exactly when it was recorded so or has been inferred. With any other type \<open>init\<close>
  only starts the load, on the adapter that was active, and sends nothing to Drive; with
  \<open>'gdrive'\<close> it sets the adapter (the local one when the scripts fail, the Drive
  one when the session is restored) and then starts the load, or sets no adapter and
  loads nothing when the session is not restored. The load is never started before the
  adapter is set.
\<close>

theorem boot_decides_adapter:
  "(\<not> truthy_str (localStorage w STORAGE_TYPE_KEY) \<and>
      localStorage (fst (init e w s)) STORAGE_TYPE_KEY = Some ''gdrive'') =
   (\<not> truthy_str (localStorage w STORAGE_TYPE_KEY) \<and> stored_token_valid w) \<and>
   (truthy_str (localStorage w STORAGE_TYPE_KEY) \<longrightarrow>
      localStorage (fst (init e w s)) STORAGE_TYPE_KEY = localStorage w STORAGE_TYPE_KEY) \<and>
   (fst (recover_storage_type w) = Some ''gdrive'') =
     (localStorage w STORAGE_TYPE_KEY = Some ''gdrive'' \<or>
      \<not> truthy_str (localStorage w STORAGE_TYPE_KEY) \<and> stored_token_valid w) \<and>
   (fst (recover_storage_type w) \<noteq> Some ''gdrive'' \<longrightarrow>
      snd (snd (init e w s)) = [LoadData] \<and> fst (snd (init e w s)) = s \<and>
      requests (fst (init e w s)) = requests w) \<and>
   (fst (recover_storage_type w) = Some ''gdrive'' \<longrightarrow>
      snd (snd (init e w s)) =
        (if fst (initialize e (snd (recover_storage_type w))) \<noteq> Inr ()
         then [SetAdapter LocalStorageAdapter, LoadData]
         else if fst (restoreSession e (snd (initialize e (snd (recover_storage_type w))))) = Inr True
         then [SetAdapter GoogleDriveAdapter, LoadData]
         else []))"
proof (intro conjI impI)
  have keep: "localStorage (fst (init e w s)) STORAGE_TYPE_KEY =
      localStorage (snd (recover_storage_type w)) STORAGE_TYPE_KEY"
  proof (cases "fst (recover_storage_type w) = Some ''gdrive''")
    case True
    show ?thesis
      by (simp add: init_drive[OF True] Let_def console_log_def restoreSession_keeps_type
          initialize_frame)
  next
    case False
    then show ?thesis by (simp add: init_local)
  qed
  show "(\<not> truthy_str (localStorage w STORAGE_TYPE_KEY) \<and>
      localStorage (fst (init e w s)) STORAGE_TYPE_KEY = Some ''gdrive'') =
   (\<not> truthy_str (localStorage w STORAGE_TYPE_KEY) \<and> stored_token_valid w)"
    unfolding keep by (auto simp: recover_cases)
  show "localStorage (fst (init e w s)) STORAGE_TYPE_KEY = localStorage w STORAGE_TYPE_KEY"
    if "truthy_str (localStorage w STORAGE_TYPE_KEY)"
    unfolding keep using that by (simp add: recover_cases)
  show "(fst (recover_storage_type w) = Some ''gdrive'') =
     (localStorage w STORAGE_TYPE_KEY = Some ''gdrive'' \<or>
      \<not> truthy_str (localStorage w STORAGE_TYPE_KEY) \<and> stored_token_valid w)"
    by (auto simp: recover_cases)
next
  assume a: "fst (recover_storage_type w) \<noteq> Some ''gdrive''"
  show "snd (snd (init e w s)) = [LoadData]" "fst (snd (init e w s)) = s"
    by (simp_all add: init_local[OF a])
  have "\<not> (\<not> truthy_str (localStorage w STORAGE_TYPE_KEY) \<and> stored_token_valid w)"
    using a by (auto simp: recover_cases)
  then have "snd (recover_storage_type w) = w"
    by (auto simp: recover_cases)
  then show "requests (fst (init e w s)) = requests w"
    by (simp add: init_local[OF a])
next
  assume a: "fst (recover_storage_type w) = Some ''gdrive''"
  show "snd (snd (init e w s)) =
        (if fst (initialize e (snd (recover_storage_type w))) \<noteq> Inr ()
         then [SetAdapter LocalStorageAdapter, LoadData]
         else if fst (restoreSession e (snd (initialize e (snd (recover_storage_type w))))) = Inr True
         then [SetAdapter GoogleDriveAdapter, LoadData]
         else [])"
    by (simp add: init_drive[OF a] Let_def)
qed

lemma stored_valid_recovering: "stored_token_valid recovering_world = True"
  by (simp add: stored_token_valid_def stored_expiry_def recovering_world_def page_load_def
      TOKEN_KEY_def EXPIRY_KEY_def Number_str_5001 num_gt_def)

lemma recover_frame:
  "scriptsPromise (snd (recover_storage_type w)) = scriptsPromise w"
  "libs_present (snd (recover_storage_type w)) = libs_present w"
  "now (snd (recover_storage_type w)) = now w"
  "localStorage (snd (recover_storage_type w)) TOKEN_KEY = localStorage w TOKEN_KEY"
  "localStorage (snd (recover_storage_type w)) EXPIRY_KEY = localStorage w EXPIRY_KEY"
  by (simp_all add: recover_cases console_log_def TOKEN_KEY_def EXPIRY_KEY_def STORAGE_TYPE_KEY_def)

lemma stored_token_valid_recover:
  "stored_token_valid (snd (recover_storage_type w)) = stored_token_valid w"
  by (simp add: stored_token_valid_def stored_expiry_def recover_frame)

lemma stored_token_valid_initialize:
  "stored_token_valid (snd (initialize e w)) = stored_token_valid w"
  by (simp add: stored_token_valid_def stored_expiry_def initialize_frame)

lemma initialize_loads:
  "script_load e = None \<Longrightarrow> scriptsPromise w = None \<Longrightarrow> fst (initialize e w) = Inr ()"
  by (simp add: initialize_def loadGoogleScripts_def)

lemma initialize_fails:
  "script_load e = Some err \<Longrightarrow> scriptsPromise w = None \<Longrightarrow> \<not> libs_present w \<Longrightarrow>
   fst (initialize e w) = Inl err"
  by (simp add: initialize_def loadGoogleScripts_def)

theorem boot_decides_adapter_witness:
  "\<not> truthy_str (localStorage recovering_world STORAGE_TYPE_KEY) \<and>
   stored_token_valid recovering_world \<and>
   localStorage (fst (init env_ok recovering_world shell0)) STORAGE_TYPE_KEY = Some ''gdrive'' \<and>
   snd (snd (init env_ok recovering_world shell0)) = [SetAdapter GoogleDriveAdapter, LoadData] \<and>
   \<not> truthy_str (localStorage fresh_world STORAGE_TYPE_KEY) \<and>
   \<not> stored_token_valid fresh_world \<and>
   localStorage (fst (init env_ok fresh_world shell0)) STORAGE_TYPE_KEY = None \<and>
   snd (snd (init env_ok fresh_world shell0)) = [LoadData] \<and>
   truthy_str (localStorage expired_world STORAGE_TYPE_KEY) \<and>
   snd (snd (init env_ok expired_world shell0)) = [] \<and>
   snd (snd (init env_no_scripts expired_world shell0)) = [SetAdapter LocalStorageAdapter, LoadData]"
proof -
  have a: "localStorage recovering_world STORAGE_TYPE_KEY = None"
    "localStorage fresh_world STORAGE_TYPE_KEY = None"
    "localStorage expired_world STORAGE_TYPE_KEY = Some ''gdrive''"
    by (simp_all add: recovering_world_def fresh_world_def expired_world_def page_load_def
        stored_session_def TOKEN_KEY_def EXPIRY_KEY_def STORAGE_TYPE_KEY_def)
  have p: "scriptsPromise recovering_world = None" "scriptsPromise expired_world = None"
    "\<not> libs_present expired_world" "\<not> libs_present recovering_world"
    by (simp_all add: recovering_world_def expired_world_def page_load_def)
  have e: "script_load env_ok = None" "list_fault env_ok = None" "create_outcome env_ok = HttpOk"
    "script_load env_no_scripts = Some (Error ''Failed to load gapi script'')"
    by (simp_all add: env_ok_def env_no_scripts_def)
  have b: "\<not> stored_token_valid fresh_world"
    by (simp add: stored_token_valid_def fresh_world_def page_load_def)
  have r1: "fst (recover_storage_type recovering_world) = Some ''gdrive''"
    by (simp add: recover_cases a stored_valid_recovering)
  have r2: "fst (recover_storage_type fresh_world) \<noteq> Some ''gdrive''"
    using b by (simp add: recover_cases a)
  have r3: "fst (recover_storage_type expired_world) = Some ''gdrive''"
    by (simp add: recover_cases a)
  have i1: "fst (initialize env_ok (snd (recover_storage_type recovering_world))) = Inr ()"
    by (rule initialize_loads) (simp_all add: e recover_frame p)
  have s1: "fst (restoreSession env_ok
                   (snd (initialize env_ok (snd (recover_storage_type recovering_world))))) = Inr True"
  proof (rule restoreSession_succeeds)
    show "fst (initialize env_ok
                (snd (initialize env_ok (snd (recover_storage_type recovering_world))))) = Inr ()"
      using i1 by (simp add: initialize_again)
    show "stored_token_valid (snd (initialize env_ok (snd (recover_storage_type recovering_world))))"
      by (simp add: stored_token_valid_initialize stored_token_valid_recover stored_valid_recovering)
    have "drive_api (snd (initialize env_ok (snd (recover_storage_type recovering_world))))"
      by (rule initialize_api) (simp_all add: e recover_frame p)
    then show "fst (findOrCreateConfigFile env_ok
                 (restoring (snd (initialize env_ok
                    (snd (initialize env_ok (snd (recover_storage_type recovering_world)))))))) = Inr ()"
      by (intro findOrCreateConfigFile_succeeds) (simp_all add: restoring_api initialize_again e)
  qed
  have i3: "fst (initialize env_ok (snd (recover_storage_type expired_world))) = Inr ()"
    by (rule initialize_loads) (simp_all add: e recover_frame p)
  have "\<not> stored_token_valid (snd (initialize env_ok (snd (recover_storage_type expired_world))))"
    by (simp add: stored_token_valid_initialize stored_token_valid_recover stored_valid_expired)
  then have s3: "fst (restoreSession env_ok
                   (snd (initialize env_ok (snd (recover_storage_type expired_world))))) = Inr False"
    using restoreSession_not_valid by blast
  have i4: "fst (initialize env_no_scripts (snd (recover_storage_type expired_world))) =
      Inl (Error ''Failed to load gapi script'')"
    by (rule initialize_fails) (simp_all add: e recover_frame p)
  have t1: "localStorage (fst (init env_ok recovering_world shell0)) STORAGE_TYPE_KEY = Some ''gdrive''"
    "snd (snd (init env_ok recovering_world shell0)) = [SetAdapter GoogleDriveAdapter, LoadData]"
    using boot_decides_adapter[of recovering_world env_ok shell0] r1 i1 s1
    by (simp_all add: a stored_valid_recovering)
  have t2: "localStorage (fst (init env_ok fresh_world shell0)) STORAGE_TYPE_KEY = None"
    "snd (snd (init env_ok fresh_world shell0)) = [LoadData]"
    using boot_decides_adapter[of fresh_world env_ok shell0] r2 b
    by (simp_all add: a init_local[OF r2] recover_cases)
  have t3: "snd (snd (init env_ok expired_world shell0)) = []"
    using boot_decides_adapter[of expired_world env_ok shell0] r3 i3 s3 by simp
  have t4: "snd (snd (init env_no_scripts expired_world shell0)) =
      [SetAdapter LocalStorageAdapter, LoadData]"
    using boot_decides_adapter[of expired_world env_no_scripts shell0] r3 i4 by simp
  show ?thesis
    using t1 t2 t3 t4 b by (simp add: a stored_valid_recovering)
qed

subsection \<open>Write-through effects\<close>

lemma effects_loading:
  "isLoading s \<Longrightarrow> save_enabled_widgets s = []"
  "isLoading s \<Longrightarrow> save_widget_visibility s = []"
  "isLoading s \<Longrightarrow> save_current_space s = []"
  "isLoading s \<Longrightarrow> save_settings s = []"
  "isLoading s \<Longrightarrow> save_todoist s = []"
  "isLoading s \<Longrightarrow> save_music s = []"
  "isLoading s \<Longrightarrow> save_custom_spaces s = []"
  by (simp_all add: save_enabled_widgets_def save_widget_visibility_def save_current_space_def
      save_settings_def save_todoist_def save_music_def save_custom_spaces_def split: option.split)

lemma render_writes_loading: "isLoading s \<Longrightarrow> render_writes changed s = []"
  by (simp add: render_writes_def useEffect_def effects_loading)

text \<open>
  C9 (as amended). While \<open>isLoading\<close> is true, no render calls \<open>storage.set\<close>,
  whatever has changed. When it is false, a change of \<open>enabledWidgets\<close>,
  \<open>widgetVisibility\<close>, \<open>settings\<close>, \<open>todoistConfig\<close> or \<open>customSpaces\<close>
  alone makes exactly one call, on that piece's own key; a change of
  \<open>currentSpace\<close> makes one call on its key when the space is not null and none
  otherwise; a change of \<open>musicState\<close> makes a call on \<open>focusnook-music\<close> and,
  when its \<open>customStreams\<close> is truthy, a second one on
  \<open>chillspace-custom-streams\<close>. No other key is written.
\<close>

theorem write_through_effects:
  "(isLoading s \<longrightarrow> render_writes changed s = []) \<and>
   (\<not> isLoading s \<longrightarrow>
      render_writes [Dep_enabledWidgets] s = [(''focusnook-enabled-widgets'', enabledWidgets s)] \<and>
      render_writes [Dep_widgetVisibility] s =
        [(''focusnook-widget-visibility'', widgetVisibility s)] \<and>
      render_writes [Dep_currentSpace] s =
        (case currentSpace s of
           None \<Rightarrow> []
         | Some sp \<Rightarrow> [(''focusnook-current-space'', space_id sp)]) \<and>
      render_writes [Dep_settings] s = [(''focusnook-settings'', settings s)] \<and>
      render_writes [Dep_todoistConfig] s = [(''focusnook-todoist'', todoistConfig s)] \<and>
      render_writes [Dep_musicState] s =
        (''focusnook-music'', JObj (musicState s)) #
        (case map_of (musicState s) ''customStreams'' of
           None \<Rightarrow> []
         | Some cs \<Rightarrow> if truthy cs then [(''chillspace-custom-streams'', cs)] else []) \<and>
      render_writes [Dep_customSpaces] s = [(''chillspace-custom-spaces'', customSpaces s)])"
  by (simp add: render_writes_loading)
     (simp add: render_writes_def useEffect_def save_enabled_widgets_def
        save_widget_visibility_def save_current_space_def save_settings_def save_todoist_def
        save_music_def save_custom_spaces_def split: option.split)

text \<open>
  The claim as stated scopes each write to one key: a change of the music state alone
  writes two keys (lines 271--273).
\<close>

theorem write_through_effects_counterexample:
  "\<not> isLoading (shell0\<lparr>isLoading := False\<rparr>) \<and>
   map fst (render_writes [Dep_musicState] (shell0\<lparr>isLoading := False\<rparr>)) =
     [''focusnook-music'', ''chillspace-custom-streams'']"
  by (simp add: render_writes_def useEffect_def save_music_def shell0_def initial_shell_def)

theorem write_through_effects_witness:
  "isLoading shell0 \<and>
   render_writes [Dep_isLoading, Dep_enabledWidgets, Dep_widgetVisibility, Dep_currentSpace,
      Dep_settings, Dep_todoistConfig, Dep_musicState, Dep_customSpaces] shell0 = [] \<and>
   \<not> isLoading (shell0\<lparr>isLoading := False\<rparr>) \<and>
   render_writes [Dep_settings] (shell0\<lparr>isLoading := False\<rparr>) =
     [(''focusnook-settings'', JObj [(''showClock'', JBool True)])] \<and>
   render_writes [Dep_currentSpace] (shell0\<lparr>isLoading := False\<rparr>) =
     [(''focusnook-current-space'', JStr ''lofi-cafe'')]"
  using write_through_effects[of shell0 "[Dep_isLoading, Dep_enabledWidgets, Dep_widgetVisibility,
      Dep_currentSpace, Dep_settings, Dep_todoistConfig, Dep_musicState, Dep_customSpaces]"]
    write_through_effects[of "shell0\<lparr>isLoading := False\<rparr>" "[]"]
  by (simp add: shell0_def initial_shell_def)

subsection \<open>The keys of custom spaces and custom streams\<close>

lemma store_all_frame:
  "accessToken (store_all kvs w) = accessToken w"
  "configFileId (store_all kvs w) = configFileId w"
  by (induction kvs arbitrary: w) (simp_all add: setItem_state)

lemma setItem_plain_key:
  assumes "k \<noteq> ''__proto__''"
  shows "cache (snd (setItem k v w)) = AList.update k v (cache w)"
    and "cache_proto (snd (setItem k v w)) = cache_proto w"
  by (simp_all add: setItem_state js_set_entry[OF stores_entry_key[OF assms]])

lemma store_all_proto:
  "''__proto__'' \<notin> fst ` set kvs \<Longrightarrow> cache_proto (store_all kvs w) = cache_proto w"
  by (induction kvs arbitrary: w) (auto simp: setItem_plain_key)

lemma update_nonempty: "AList.update k v al \<noteq> []"
  by (cases al) simp_all

lemma store_all_nonempty:
  "kvs \<noteq> [] \<Longrightarrow> ''__proto__'' \<notin> fst ` set kvs \<Longrightarrow> cache (store_all kvs w) \<noteq> []"
proof (induction kvs arbitrary: w)
  case Nil
  then show ?case by simp
next
  case (Cons kv kvs)
  have k: "fst kv \<noteq> ''__proto__''"
    using Cons.prems(2) by auto
  show ?case
  proof (cases kvs)
    case Nil
    then show ?thesis by (simp add: setItem_plain_key[OF k] update_nonempty)
  next
    case (Cons a list)
    then show ?thesis using Cons.IH Cons.prems(2) by simp
  qed
qed

lemma store_all_untouched:
  "k \<notin> fst ` set kvs \<Longrightarrow> ''__proto__'' \<notin> fst ` set kvs \<Longrightarrow>
   map_of (cache (store_all kvs w)) k = map_of (cache w) k"
  by (induction kvs arbitrary: w) (auto simp: setItem_plain_key update_conv')

lemma useEffect_subset: "set (useEffect deps changed body) \<subseteq> set body"
  by (auto simp: useEffect_def)

lemma effect_keys:
  "fst ` set (save_enabled_widgets s) \<subseteq> written_keys"
  "fst ` set (save_widget_visibility s) \<subseteq> written_keys"
  "fst ` set (save_current_space s) \<subseteq> written_keys"
  "fst ` set (save_settings s) \<subseteq> written_keys"
  "fst ` set (save_todoist s) \<subseteq> written_keys"
  "fst ` set (save_music s) \<subseteq> written_keys"
  "fst ` set (save_custom_spaces s) \<subseteq> written_keys"
  by (auto simp: save_enabled_widgets_def save_widget_visibility_def save_current_space_def
      save_settings_def save_todoist_def save_music_def save_custom_spaces_def written_keys_def
      split: option.splits if_splits)

lemma useEffect_keys:
  "fst ` set body \<subseteq> K \<Longrightarrow> fst ` set (useEffect deps changed body) \<subseteq> K"
  using useEffect_subset[of deps changed body] by (meson image_mono order_trans)

lemma render_writes_keys: "fst ` set (render_writes changed s) \<subseteq> written_keys"
  unfolding render_writes_def set_append image_Un
  by (intro Un_least useEffect_keys effect_keys)

lemma keys_not_written:
  "''focusnook-custom-spaces'' \<notin> written_keys" "''focusnook-custom-streams'' \<notin> written_keys"
  "''__proto__'' \<notin> written_keys"
  by (simp_all add: written_keys_def)

lemma proto_not_written: "''__proto__'' \<notin> fst ` set (render_writes changed s)"
  using render_writes_keys[of changed s] keys_not_written(3) by (meson subsetD)

lemma read_key_not_written:
  assumes "rk = ''focusnook-custom-spaces'' \<or> rk = ''focusnook-custom-streams''"
  shows "rk \<notin> fst ` set (render_writes changed s)"
proof -
  have "rk \<notin> written_keys"
    using assms keys_not_written by (elim disjE) simp_all
  then show ?thesis
    using render_writes_keys[of changed s] by (meson subsetD)
qed

lemma read_key_plain:
  assumes "rk = ''focusnook-custom-spaces'' \<or> rk = ''focusnook-custom-streams''"
  shows "inherited ObjectPrototype rk = None"
  using assms by (elim disjE) (simp_all add: inherited_def object_prototype_names_def)

lemma js_get_absent:
  "js_get own p k = None \<Longrightarrow> map_of own k = None \<and> inherited p k = None"
  by (cases "map_of own k") (simp_all add: js_get_def)

lemma session_end_eq:
  "session_end s =
     ready_world
       \<lparr>now := 3000,
        cache := [(''chillspace-custom-spaces'', my_spaces)],
        saveTimeout := Some 1, timers := [], timer_seq := 1,
        drive := [\<lparr>file_id = ''file-1'', file_name = CONFIG_NAME, trashed = False,
                  file_content = Some [(''chillspace-custom-spaces'', my_spaces)]\<rparr>],
        requests := [FilesList, FilesCreate [],
                     FilesPatch ''file-1'' [(''chillspace-custom-spaces'', my_spaces)]],
        console := [(LOG, ''Saving data to Drive...''), (LOG, ''Drive Save Success:'')]\<rparr>"
  by (simp add: session_end_def after_session_def render_writes_def useEffect_def save_custom_spaces_def
      setItem_def js_set_def stores_entry_def setTimeout_def elapse_def saveAllData_def
      find_file_def write_content_def console_log_def send_def env_ok_def ready_world_eq Let_def)

lemma Number_str_3551000: "Number_str ''3551000'' = Some 3551000"
  by (simp add: Number_str_def digit_val_def)

lemma next_start_state:
  "fst (restoreSession env_ok (reload 5000 (session_end s))) = Inr True"
  "accessToken (next_start s) = Some ''ya29.token''"
  "configFileId (next_start s) = Some ''file-1''"
  "cache (next_start s) = [(''chillspace-custom-spaces'', my_spaces)]"
  "cache_proto (next_start s) = ObjectPrototype"
  by (simp_all add: next_start_def restart_def reload_def session_end_eq ready_world_eq page_load_def
      restoreSession_def initialize_def loadGoogleScripts_def stored_token_valid_def
      stored_expiry_def num_gt_def Number_str_3551000 restore_gapi_token_def
      findOrCreateConfigFile_def matching_files_def loadAllData_def load_response_def
      find_file_def drive_api_def console_log_def send_def env_ok_def Let_def TOKEN_KEY_def
      EXPIRY_KEY_def CONFIG_NAME_def)

lemma next_start_read:
  "map (\<lambda>k. fst (getItem env_ok k (next_start s))) loadData_keys =
     [Inr (Json JNull), Inr (Json JNull), Inr (Json JNull), Inr (Json JNull),
      Inr (Json JNull), Inr (Json JNull), Inr (Json JNull), Inr (Json JNull)]"
  by (simp add: loadData_keys_def getItem_cached next_start_state or_null_def js_get_def
      inherited_def object_prototype_names_def)

lemma setItem_frame:
  assumes "timers_owned w"
  shows "now (snd (setItem k v w)) = now w" "drive (snd (setItem k v w)) = drive w"
    "localStorage (snd (setItem k v w)) = localStorage w"
    "timer_seq (snd (setItem k v w)) = Suc (timer_seq w)"
    "timers (snd (setItem k v w)) = [(Suc (timer_seq w), now w + 2000)]"
  by (simp_all add: setItem_schedules[OF assms])

lemma store_all_schedules:
  assumes "timers_owned w" and "kvs \<noteq> []"
  shows "timers (store_all kvs w) = [(timer_seq w + length kvs, now w + 2000)] \<and>
         now (store_all kvs w) = now w \<and> drive (store_all kvs w) = drive w \<and>
         localStorage (store_all kvs w) = localStorage w"
  using assms
proof (induction kvs arbitrary: w)
  case Nil
  then show ?case by simp
next
  case (Cons kv kvs)
  have own: "timers_owned (snd (setItem (fst kv) (snd kv) w))"
    using Cons.prems(1) by (rule timers_owned_setItem)
  show ?case
  proof (cases "kvs = []")
    case True
    then show ?thesis by (simp add: setItem_frame[OF Cons.prems(1)])
  next
    case False
    then show ?thesis
      using Cons.IH[OF own False] by (simp add: setItem_frame[OF Cons.prems(1)])
  qed
qed

lemma matching_files_write_content:
  "matching_files (write_content i c fs) = write_content i c (matching_files fs)"
  by (induction fs) (simp_all add: matching_files_def write_content_def)

lemma find_file_write_content:
  "list_ex (\<lambda>f. file_id f = i) fs \<Longrightarrow>
   \<exists>g. find_file i (write_content i c fs) = Some g \<and> file_content g = Some c"
  by (induction fs) (auto simp: find_file_def write_content_def)

lemma find_file_present:
  "list_ex (\<lambda>f. file_id f = i) fs \<Longrightarrow> \<exists>g. find_file i fs = Some g"
  by (induction fs) (auto simp: find_file_def)

lemma flush_persists:
  assumes "timers w = [t]" and "snd t \<le> now w + d"
    and "configFileId w = Some i" and "i \<noteq> []"
    and "patch_outcome e = HttpOk" and "list_ex (\<lambda>f. file_id f = i) (drive w)"
  shows "drive (elapse e d w) = write_content i (cache w) (drive w)"
    and "localStorage (elapse e d w) = localStorage w"
proof -
  obtain g where g: "find_file i (drive w) = Some g"
    using find_file_present[OF assms(6)] by blast
  show "drive (elapse e d w) = write_content i (cache w) (drive w)"
    "localStorage (elapse e d w) = localStorage w"
    by (simp_all add: elapse_fires_one[OF assms(1,2)] saveAllData_def assms(3,4,5) g
        console_log_def send_def Let_def)
qed

lemma restoring_state:
  "drive (restoring w) = drive w"
  "accessToken (restoring w) = localStorage w TOKEN_KEY"
  "requests (restoring w) = requests w"
  by (simp_all add: restoring_def restore_gapi_token_def console_log_def)

lemma initialize_drive: "drive (snd (initialize e w)) = drive w"
  by (cases rule: initialize_cases[where e = e and w = w])
     (simp_all add: loadGoogleScripts_def split: option.split)

lemma loadAllData_loads:
  assumes "drive_api w" and "configFileId w = Some i" and "i \<noteq> []" and "get_fault e = None"
    and "find_file i (drive w) = Some g" and "file_content g = Some c"
  shows "cache (snd (loadAllData e w)) = c"
    and "cache_proto (snd (loadAllData e w)) = ObjectPrototype"
  using assms by (simp_all add: loadAllData_def load_response_def send_def)

lemma restart_reads_file:
  assumes e: "script_load e = None" "list_fault e = None" "get_fault e = None"
    and valid: "stored_token_valid (page_load t ls dr)"
    and first: "matching_files dr = f # fs" "file_id f \<noteq> []"
    and found: "find_file (file_id f) dr = Some g" "file_content g = Some c"
  shows "fst (restoreSession e (page_load t ls dr)) = Inr True \<and>
         cache (snd (restoreSession e (page_load t ls dr))) = c \<and>
         cache_proto (snd (restoreSession e (page_load t ls dr))) = ObjectPrototype \<and>
         configFileId (snd (restoreSession e (page_load t ls dr))) = Some (file_id f) \<and>
         truthy_str (accessToken (snd (restoreSession e (page_load t ls dr))))"
proof -
  define w0 where "w0 = page_load t ls dr"
  define w1 where "w1 = snd (initialize e w0)"
  have i0: "fst (initialize e w0) = Inr ()"
    unfolding w0_def using e(1) by (rule initialize_fresh)
  then have i: "initialize e w0 = (Inr (), w1)"
    by (simp add: w1_def prod_eq_iff)
  have api: "drive_api (restoring w1)"
    unfolding w1_def w0_def restoring_api using e(1) by (rule initialize_fresh_api)
  have d1: "drive (restoring w1) = dr"
    by (simp add: restoring_state w1_def initialize_drive) (simp add: w0_def page_load_def)
  have tok: "accessToken (restoring w1) = ls TOKEN_KEY"
    by (simp add: restoring_state w1_def initialize_frame) (simp add: w0_def page_load_def)
  have tr: "truthy_str (ls TOKEN_KEY)"
    using valid by (simp add: stored_token_valid_def page_load_def)
  define w2 where "w2 = (send FilesList (restoring w1))\<lparr>configFileId := Some (file_id f)\<rparr>"
  have f: "findOrCreateConfigFile e (restoring w1) = (Inr (), snd (loadAllData e w2))"
    unfolding w2_def by (rule findOrCreateConfigFile_found) (simp_all add: api e d1 first)
  have w2: "configFileId w2 = Some (file_id f)" "drive w2 = dr" "accessToken w2 = ls TOKEN_KEY"
    "drive_api w2"
    using api by (simp_all add: w2_def send_def d1 tok drive_api_def)
  have c: "cache (snd (loadAllData e w2)) = c"
    "cache_proto (snd (loadAllData e w2)) = ObjectPrototype"
    by (rule loadAllData_loads[where i = "file_id f" and g = g]; simp add: w2 first e found)+
  have rs: "restoreSession e w0 =
      (Inr True, console_log LOG ''[Drive Debug] Session restored successfully''
                   (snd (loadAllData e w2)))"
  proof -
    have v0: "stored_token_valid w0"
      using valid by (simp add: w0_def)
    show ?thesis
      by (subst restoreSession_valid[OF i v0], subst f) simp
  qed
  show ?thesis
    unfolding w0_def[symmetric] rs
    by (simp add: console_log_def c loadAllData_frame w2 tr)
qed

lemma session_persists:
  assumes own: "timers_owned w"
    and cfg: "configFileId w = Some i" "i \<noteq> []" "matching_files (drive w) = f # fs" "file_id f = i"
    and writes: "render_writes changed s \<noteq> []" and d: "2000 \<le> d"
    and patch: "patch_outcome e = HttpOk"
  shows "drive (after_session e changed s d w) =
           write_content i (cache (store_all (render_writes changed s) w)) (drive w)"
    and "localStorage (after_session e changed s d w) = localStorage w"
proof -
  define w1 where "w1 = store_all (render_writes changed s) w"
  have s1: "timers w1 = [(timer_seq w + length (render_writes changed s), now w + 2000)]"
    "now w1 = now w" "drive w1 = drive w" "localStorage w1 = localStorage w"
    using store_all_schedules[OF own writes] by (simp_all add: w1_def)
  have "f \<in> set (matching_files (drive w))"
    by (simp add: cfg(3))
  then have "f \<in> set (drive w)"
    by (simp add: matching_files_def)
  then have ex: "list_ex (\<lambda>f. file_id f = i) (drive w1)"
    using cfg(4) by (auto simp: s1 list_ex_iff)
  have c1: "configFileId w1 = Some i"
    by (simp add: w1_def store_all_frame cfg)
  have due: "snd (timer_seq w + length (render_writes changed s), now w + 2000) \<le> now w1 + d"
    using d by (simp add: s1)
  show "drive (after_session e changed s d w) =
           write_content i (cache (store_all (render_writes changed s) w)) (drive w)"
    "localStorage (after_session e changed s d w) = localStorage w"
    using flush_persists[OF s1(1) due c1 cfg(2) patch ex]
    by (simp_all add: after_session_def w1_def[symmetric] s1)
qed

lemma read_in_session:
  assumes rk: "rk = ''focusnook-custom-spaces'' \<or> rk = ''focusnook-custom-streams''"
    and absent: "js_get (cache w) (cache_proto w) rk = None"
    and writes: "render_writes changed s \<noteq> []"
  shows "fst (getItem e rk (after_session e changed s d w)) = Inr (Json JNull)"
    and "js_get (cache (after_session e changed s d w)) (cache_proto (after_session e changed s d w))
           rk = None"
proof -
  define w1 where "w1 = store_all (render_writes changed s) w"
  have a: "map_of (cache w) rk = None" "inherited (cache_proto w) rk = None"
    using js_get_absent[OF absent] by simp_all
  have ne: "cache w1 \<noteq> []"
    unfolding w1_def using writes proto_not_written by (rule store_all_nonempty)
  have same: "map_of (cache w1) rk = None"
    unfolding w1_def
    using store_all_untouched[OF read_key_not_written[OF rk] proto_not_written] a(1) by simp
  have p: "cache_proto w1 = cache_proto w"
    unfolding w1_def using proto_not_written by (rule store_all_proto)
  have g: "js_get (cache w1) (cache_proto w1) rk = None"
    by (simp add: js_get_def same p a(2))
  show "fst (getItem e rk (after_session e changed s d w)) = Inr (Json JNull)"
    unfolding after_session_def w1_def[symmetric]
    using ne by (subst getItem_cached) (simp_all add: elapse_keeps g or_null_def)
  show "js_get (cache (after_session e changed s d w)) (cache_proto (after_session e changed s d w))
           rk = None"
    unfolding after_session_def w1_def[symmetric]
    by (simp add: elapse_keeps g)
qed

lemma restart_after_session:
  assumes rk: "rk = ''focusnook-custom-spaces'' \<or> rk = ''focusnook-custom-streams''"
    and absent: "map_of (cache w) rk = None"
    and own: "timers_owned w"
    and cfg: "configFileId w = Some i" "i \<noteq> []" "matching_files (drive w) = f # fs" "file_id f = i"
    and writes: "render_writes changed s \<noteq> []" and d: "2000 \<le> d"
    and e: "patch_outcome e = HttpOk" "script_load e = None" "list_fault e = None"
      "get_fault e = None"
    and valid: "stored_token_valid (reload t (after_session e changed s d w))"
  shows "fst (restoreSession e (reload t (after_session e changed s d w))) = Inr True \<and>
         fst (getItem e rk (restart e t (after_session e changed s d w))) = Inr (Json JNull) \<and>
         js_get (cache (restart e t (after_session e changed s d w)))
           (cache_proto (restart e t (after_session e changed s d w))) rk = None"
proof -
  define c where "c = cache (store_all (render_writes changed s) w)"
  define dr where "dr = write_content i c (drive w)"
  define ls where "ls = localStorage w"
  have same: "map_of c rk = None"
    unfolding c_def
    using store_all_untouched[OF read_key_not_written[OF rk] proto_not_written] absent by simp
  have ne: "c \<noteq> []"
    unfolding c_def using writes proto_not_written by (rule store_all_nonempty)
  have r: "reload t (after_session e changed s d w) = page_load t ls dr"
    using session_persists[OF own cfg writes d e(1)]
    by (simp add: reload_def dr_def ls_def c_def)
  have m: "matching_files dr = f\<lparr>file_content := Some c\<rparr> # write_content i c fs"
    by (simp add: dr_def matching_files_write_content cfg) (simp add: write_content_def cfg)
  have "f \<in> set (matching_files (drive w))"
    by (simp add: cfg(3))
  then have "f \<in> set (drive w)"
    by (simp add: matching_files_def)
  then have "list_ex (\<lambda>f. file_id f = i) (drive w)"
    using cfg(4) by (auto simp: list_ex_iff)
  then obtain g where g: "find_file i dr = Some g" "file_content g = Some c"
    unfolding dr_def using find_file_write_content by blast
  have v: "stored_token_valid (page_load t ls dr)"
    using valid by (simp add: r)
  have st: "fst (restoreSession e (page_load t ls dr)) = Inr True \<and>
         cache (snd (restoreSession e (page_load t ls dr))) = c \<and>
         cache_proto (snd (restoreSession e (page_load t ls dr))) = ObjectPrototype \<and>
         configFileId (snd (restoreSession e (page_load t ls dr))) =
           Some (file_id (f\<lparr>file_content := Some c\<rparr>)) \<and>
         truthy_str (accessToken (snd (restoreSession e (page_load t ls dr))))"
    by (rule restart_reads_file[OF e(2,3,4) v m _ _ g(2)]) (simp_all add: cfg g)
  have "js_get c ObjectPrototype rk = None"
    by (simp add: js_get_def same read_key_plain[OF rk])
  then show ?thesis
    using st ne by (simp add: restart_def r getItem_cached or_null_def)
qed

text \<open>
  C10. The keys under which the effects save the custom spaces and the custom streams,
  \<open>chillspace-custom-spaces\<close> and \<open>chillspace-custom-streams\<close>, are not among
  the keys of the bulk read; the keys it reads for them, \<open>focusnook-custom-spaces\<close>
  and \<open>focusnook-custom-streams\<close>, are written by no effect. Let the document have
  no entry under the read key, as is the case for every document that only this
  application has written, and let a render save any value other than \<open>null\<close>
  through the Drive adapter (the custom spaces are an array, and the custom streams are
  saved only when truthy). Then a read of the read key returns \<open>null\<close>, not the
  saved value: in the same session, also after the flush, and at the next start, when
  the flush has reached the Drive file, the page is loaded again and the session is
  restored. In both states the document still has no entry under the read key.
\<close>

theorem custom_keys_not_read_back:
  assumes rk: "rk = ''focusnook-custom-spaces'' \<or> rk = ''focusnook-custom-streams''"
    and absent: "js_get (cache w) (cache_proto w) rk = None"
    and saved: "(wk, v) \<in> set (render_writes changed s)"
    and v: "v \<noteq> JNull"
  shows
  "''chillspace-custom-spaces'' \<notin> set loadData_keys \<and>
   ''chillspace-custom-streams'' \<notin> set loadData_keys \<and>
   (\<not> isLoading s \<longrightarrow>
      render_writes [Dep_customSpaces] s = [(''chillspace-custom-spaces'', customSpaces s)]) \<and>
   (\<not> isLoading s \<and> map_of (musicState s) ''customStreams'' = Some cs \<and> truthy cs \<longrightarrow>
      render_writes [Dep_musicState] s =
        [(''focusnook-music'', JObj (musicState s)), (''chillspace-custom-streams'', cs)]) \<and>
   rk \<in> set loadData_keys \<and>
   rk \<notin> fst ` set (render_writes changed s) \<and>
   wk \<noteq> rk \<and>
   fst (getItem e rk (after_session e changed s d w)) = Inr (Json JNull) \<and>
   fst (getItem e rk (after_session e changed s d w)) \<noteq> Inr (Json v) \<and>
   js_get (cache (after_session e changed s d w)) (cache_proto (after_session e changed s d w))
     rk = None \<and>
   (timers_owned w \<and> configFileId w = Some i \<and> i \<noteq> [] \<and>
    matching_files (drive w) = f # fs \<and> file_id f = i \<and> 2000 \<le> d \<and>
    patch_outcome e = HttpOk \<and> script_load e = None \<and> list_fault e = None \<and>
    get_fault e = None \<and>
    stored_token_valid (reload t (after_session e changed s d w)) \<longrightarrow>
      fst (restoreSession e (reload t (after_session e changed s d w))) = Inr True \<and>
      fst (getItem e rk (restart e t (after_session e changed s d w))) = Inr (Json JNull) \<and>
      fst (getItem e rk (restart e t (after_session e changed s d w))) \<noteq> Inr (Json v) \<and>
      js_get (cache (restart e t (after_session e changed s d w)))
        (cache_proto (restart e t (after_session e changed s d w))) rk = None)"
proof -
  have writes: "render_writes changed s \<noteq> []"
    using saved by auto
  have nw: "rk \<notin> fst ` set (render_writes changed s)"
    using rk by (rule read_key_not_written)
  have "wk \<in> fst ` set (render_writes changed s)"
    using saved by force
  with nw have wk: "wk \<noteq> rk"
    by auto
  have k1: "''chillspace-custom-spaces'' \<notin> set loadData_keys"
    "''chillspace-custom-streams'' \<notin> set loadData_keys"
    by (simp_all add: loadData_keys_def)
  have k2: "rk \<in> set loadData_keys"
    using rk by (auto simp: loadData_keys_def)
  have e1: "render_writes [Dep_customSpaces] s = [(''chillspace-custom-spaces'', customSpaces s)]"
    if "\<not> isLoading s"
    using that by (simp add: render_writes_def useEffect_def save_custom_spaces_def)
  have e2: "render_writes [Dep_musicState] s =
        [(''focusnook-music'', JObj (musicState s)), (''chillspace-custom-streams'', cs)]"
    if "\<not> isLoading s \<and> map_of (musicState s) ''customStreams'' = Some cs \<and> truthy cs"
    using that by (simp add: render_writes_def useEffect_def save_music_def)
  have r1: "fst (getItem e rk (after_session e changed s d w)) = Inr (Json JNull)"
    "js_get (cache (after_session e changed s d w)) (cache_proto (after_session e changed s d w))
       rk = None"
    using rk absent writes by (rule read_in_session)+
  have r2: "fst (restoreSession e (reload t (after_session e changed s d w))) = Inr True \<and>
      fst (getItem e rk (restart e t (after_session e changed s d w))) = Inr (Json JNull) \<and>
      js_get (cache (restart e t (after_session e changed s d w)))
        (cache_proto (restart e t (after_session e changed s d w))) rk = None"
    if a: "timers_owned w \<and> configFileId w = Some i \<and> i \<noteq> [] \<and>
    matching_files (drive w) = f # fs \<and> file_id f = i \<and> 2000 \<le> d \<and>
    patch_outcome e = HttpOk \<and> script_load e = None \<and> list_fault e = None \<and>
    get_fault e = None \<and>
    stored_token_valid (reload t (after_session e changed s d w))"
    by (rule restart_after_session[OF rk _ _ _ _ _ _ writes])
       (use a js_get_absent[OF absent] in simp_all)
  show ?thesis
    using k1 k2 nw wk e1 e2 r1 r2 v by simp
qed

theorem custom_keys_not_read_back_witness:
  "js_get (cache ready_world) (cache_proto ready_world) ''focusnook-custom-spaces'' = None \<and>
   (''chillspace-custom-spaces'', my_spaces) \<in>
     set (render_writes [Dep_customSpaces] (shell0\<lparr>isLoading := False, customSpaces := my_spaces\<rparr>)) \<and>
   my_spaces \<noteq> JNull \<and>
   \<not> isLoading (shell0\<lparr>isLoading := False, customSpaces := my_spaces\<rparr>) \<and>
   render_writes [Dep_customSpaces] (shell0\<lparr>isLoading := False, customSpaces := my_spaces\<rparr>) =
     [(''chillspace-custom-spaces'', my_spaces)] \<and>
   timers_owned ready_world \<and> configFileId ready_world = Some ''file-1'' \<and>
   matching_files (drive ready_world) = drive ready_world \<and>
   stored_token_valid (reload 5000 (session_end shell0)) \<and>
   drive (session_end shell0) =
     [\<lparr>file_id = ''file-1'', file_name = CONFIG_NAME, trashed = False,
       file_content = Some [(''chillspace-custom-spaces'', my_spaces)]\<rparr>] \<and>
   fst (getItem env_ok ''focusnook-custom-spaces'' (session_end shell0)) = Inr (Json JNull) \<and>
   fst (restoreSession env_ok (reload 5000 (session_end shell0))) = Inr True \<and>
   fst (getItem env_ok ''focusnook-custom-spaces'' (next_start shell0)) = Inr (Json JNull) \<and>
   fst (getItem env_ok ''focusnook-custom-spaces'' (next_start shell0)) \<noteq> Inr (Json my_spaces) \<and>
   map (\<lambda>k. fst (getItem env_ok k (next_start shell0))) loadData_keys =
     [Inr (Json JNull), Inr (Json JNull), Inr (Json JNull), Inr (Json JNull),
      Inr (Json JNull), Inr (Json JNull), Inr (Json JNull), Inr (Json JNull)]"
proof -
  let ?s = "shell0\<lparr>isLoading := False, customSpaces := my_spaces\<rparr>"
  let ?f = "\<lparr>file_id = ''file-1'', file_name = CONFIG_NAME, trashed = False,
             file_content = Some []\<rparr>"
  have a: "\<not> isLoading ?s" "customSpaces ?s = my_spaces"
    by simp_all
  have w: "render_writes [Dep_customSpaces] ?s = [(''chillspace-custom-spaces'', my_spaces)]"
    by (simp add: render_writes_def useEffect_def save_custom_spaces_def)
  have b: "cache ready_world = []" "timers_owned ready_world"
    "configFileId ready_world = Some ''file-1''" "drive ready_world = [?f]"
    "matching_files (drive ready_world) = ?f # []"
    "js_get (cache ready_world) (cache_proto ready_world) ''focusnook-custom-spaces'' = None"
    by (simp_all add: ready_world_eq timers_owned_def matching_files_def js_get_def
        inherited_def object_prototype_names_def)
  have e: "patch_outcome env_ok = HttpOk" "script_load env_ok = None" "list_fault env_ok = None"
    "get_fault env_ok = None"
    by (simp_all add: env_ok_def)
  have c: "after_session env_ok [Dep_customSpaces] ?s 2000 ready_world = session_end shell0"
    by (simp add: session_end_def)
  have v: "stored_token_valid (reload 5000 (session_end shell0))"
    by (simp add: reload_def session_end_eq ready_world_eq page_load_def stored_token_valid_def
        stored_expiry_def num_gt_def Number_str_3551000 TOKEN_KEY_def EXPIRY_KEY_def)
  have n: "restart env_ok 5000 (session_end shell0) = next_start shell0"
    by (simp add: next_start_def)
  have d: "drive (session_end shell0) =
      [\<lparr>file_id = ''file-1'', file_name = CONFIG_NAME, trashed = False,
        file_content = Some [(''chillspace-custom-spaces'', my_spaces)]\<rparr>]"
    by (simp add: session_end_eq)
  have m: "my_spaces \<noteq> JNull"
    by (simp add: my_spaces_def)
  have s: "(''chillspace-custom-spaces'', my_spaces) \<in> set (render_writes [Dep_customSpaces] ?s)"
    by (simp add: w)
  show ?thesis
    using a w b e v d m
      custom_keys_not_read_back[OF _ b(6) s m, where e = env_ok and d = 2000 and i = "''file-1''" and f = ?f and fs = "[]" and t = 5000
        and cs = JNull]
    by (simp add: c n next_start_read)
qed

end
